theory Spec2Isabelle
  imports Complex_Main
begin

section \<open>Data model: the Booking document\<close>

text \<open>
  A shallow embedding of the booking lifecycle of the clinic backend:
  \<^verbatim>\<open>src/models/Booking.js\<close> (schema and model methods) and the handlers of
  \<^verbatim>\<open>src/routes/bookings.js\<close>.

  A JavaScript \<^verbatim>\<open>Date\<close> is its time value, the number of milliseconds since the
  epoch, an \<^typ>\<open>int\<close>. A field that may be \<^verbatim>\<open>undefined\<close> is an option. Every
  \<^verbatim>\<open>new Date()\<close> of a handler is a clock reading passed as an argument, one argument
  per reading, in the order the handler takes them.

  The status strings are the six of the schema's enum and \<^verbatim>\<open>'pending'\<close>, which the
  schema does not list but the route validators and queries name.
\<close>

datatype status =
  Pending | Confirmed | InProgress | Completed | Cancelled | Rescheduled | NoShow

text \<open>
  The record carries the schema paths that the lifecycle operations read or write,
  and \<^verbatim>\<open>updatedAt\<close>, the path that the schema option \<^verbatim>\<open>timestamps: true\<close>
  makes the library rewrite at every write. The payment, prescription and
  reminder paths, the treatment snapshot, the contact snapshot and \<^verbatim>\<open>createdAt\<close>
  (set when the document is created, never afterwards) are left out: no
  operation below writes them.
\<close>

record booking =
  user :: string
  location :: string
  appointmentDate :: int
  appointmentTime :: string
  status :: status
  notes_field :: "string option"
  bookingReference :: string
  cancellationReason :: "string option"
  cancelledAt :: "int option"
  rescheduledFrom :: "(int \<times> string) option"
  rescheduledAt :: "int option"
  rescheduleCount :: nat
  noShowMarkedAt :: "int option"
  rating :: "int option"
  ratingComment :: "string option"
  feedback :: "string option"
  feedbackDate :: "int option"
  checkedIn :: bool
  checkInTime :: "int option"
  checkoutOTP :: "string option"
  checkedOut :: bool
  checkOutTime :: "int option"
  adminCheckout :: "string option"
  canCheckOut :: bool
  checkOutEligibleTime :: "int option"
  updatedAt :: int

text \<open>The schema's enum for \<^verbatim>\<open>status\<close>, checked whenever a document is saved.\<close>

definition statusEnum :: "status list" where
  "statusEnum = [Confirmed, InProgress, Completed, Cancelled, Rescheduled, NoShow]"

text \<open>Every rejection of a handler, one constructor per response.\<close>

datatype error =
    ValidationFailed
  | BookingNotFound
  | AccessDenied
  | CancellationReasonRequired
  | NewDateMustBeInFuture
  | CannotRescheduleCompletedOrCancelled
  | RescheduledOnlyOnce
  | OnlyCompletedCanBeRated
  | InvalidDateFormat
  | PastDate
  | CannotBeCancelled
  | OutsideCheckInWindow
  | AlreadyCheckedIn
  | MustCheckInFirst
  | AlreadyCheckedOut
  | WaitMinutes int
  | NotCheckedInYet
  | PatientAlreadyCheckedOut
  | InvalidOTP
  | DateAndTimeRequired
  | CannotRescheduleStatus status
  | ServerError

text \<open>
  \<^verbatim>\<open>save()\<close> on a document that was loaded as \<open>loaded\<close> and is now \<open>b\<close>,
  with \<open>savedAt\<close> the clock reading that the library takes. The validators of
  the schema run on the whole document, so a status outside the enum makes
  \<^verbatim>\<open>save()\<close> throw, and the \<^verbatim>\<open>catch\<close> of the handler answers 500 with nothing
  written. A document that the handler has not changed is not written. A changed
  document is written with \<^verbatim>\<open>updatedAt\<close> set to \<open>savedAt\<close>. The other
  validators of the schema (the location enum, the bounds on the rating and on
  the lengths of the texts) are taken to hold of every stored document; the
  validators of the handlers enforce them on what the handlers assign.
\<close>

definition save :: "int \<Rightarrow> booking \<Rightarrow> booking \<Rightarrow> error + booking" where
  "save savedAt loaded b =
     (if status b \<notin> set statusEnum then Inl ServerError
      else if b = loaded then Inr b
      else Inr (b\<lparr>updatedAt := savedAt\<rparr>))"

text \<open>
  A mutating handler returns \<open>Inr b'\<close> when it answers with success after
  \<^verbatim>\<open>save()\<close>, \<open>b'\<close> being the stored document then, and \<open>Inl e\<close> when it
  answers with the rejection \<open>e\<close>; no rejection of the handlers below comes
  after a write. \<open>stored_after b r\<close> is then the stored document after a request
  on the stored document \<open>b\<close>.
\<close>

definition stored_after :: "booking \<Rightarrow> error + booking \<Rightarrow> booking" where
  "stored_after b r = (case r of Inl e \<Rightarrow> b | Inr b' \<Rightarrow> b')"

definition minutes :: "int \<Rightarrow> int" where
  "minutes n = n * 60 * 1000"

section \<open>Model methods (Booking.js)\<close>

text \<open>
  Each instance method assigns paths and ends with \<^verbatim>\<open>return this.save()\<close>. The
  definitions are the assignments; the handler that calls the method applies
  \<open>save\<close> to the result, with the document it has loaded.
\<close>

definition cancelBooking :: "int \<Rightarrow> string \<Rightarrow> booking \<Rightarrow> booking" where
  "cancelBooking now reason b =
     b\<lparr>status := Cancelled, cancellationReason := Some reason, cancelledAt := Some now\<rparr>"

text \<open>
  \<^verbatim>\<open>rescheduleBooking(newDate, newTime)\<close>: \<open>newDate\<close> is the time value of
  \<^verbatim>\<open>new Date(newDate)\<close>, \<open>now\<close> the clock reading of \<^verbatim>\<open>rescheduledAt\<close>.
  The \<^verbatim>\<open>throw\<close> is the \<open>Inl\<close> branch.
\<close>

definition rescheduleBooking :: "int \<Rightarrow> int \<Rightarrow> string \<Rightarrow> booking \<Rightarrow> error + booking" where
  "rescheduleBooking now newDate newTime b =
     (if rescheduleCount b \<ge> 1 then Inl RescheduledOnlyOnce
      else Inr (b\<lparr>rescheduledFrom := Some (appointmentDate b, appointmentTime b),
                  appointmentDate := newDate,
                  appointmentTime := newTime,
                  status := Rescheduled,
                  rescheduledAt := Some now,
                  rescheduleCount := rescheduleCount b + 1\<rparr>))"

definition completeBooking :: "booking \<Rightarrow> booking" where
  "completeBooking b = b\<lparr>status := Completed\<rparr>"

definition markAsNoShow :: "int \<Rightarrow> booking \<Rightarrow> booking" where
  "markAsNoShow now b = b\<lparr>status := NoShow, noShowMarkedAt := Some now\<rparr>"

definition addFeedback :: "int \<Rightarrow> int \<Rightarrow> string option \<Rightarrow> booking \<Rightarrow> booking" where
  "addFeedback now r fb b = b\<lparr>rating := Some r, feedback := fb, feedbackDate := Some now\<rparr>"

subsection \<open>The no-show sweep\<close>

text \<open>
  \<^verbatim>\<open>markNoShowAppointments\<close> is one \<^verbatim>\<open>updateMany\<close> over the collection, here
  the list of its documents. \<open>noShowFilter\<close> is the query, \<open>noShowSet\<close> the update
  of one matching document; the result is the collection after the update and
  \<^verbatim>\<open>modifiedCount\<close>. Every matching document is changed by the update (its status was
  \<^verbatim>\<open>'confirmed'\<close>), so the matched documents are the modified ones. With
  \<^verbatim>\<open>timestamps: true\<close> the library adds \<^verbatim>\<open>updatedAt\<close> to the \<^verbatim>\<open>$set\<close> of an
  \<^verbatim>\<open>updateMany\<close>, with its own clock reading \<open>savedAt\<close>; an \<^verbatim>\<open>updateMany\<close>
  runs no validator.
\<close>

definition noShowFilter :: "int \<Rightarrow> booking \<Rightarrow> bool" where
  "noShowFilter now b \<longleftrightarrow>
     status b = Confirmed \<and> appointmentDate b < now - 30 * 60 * 1000 \<and> checkedIn b \<noteq> True"

definition noShowSet :: "int \<Rightarrow> int \<Rightarrow> booking \<Rightarrow> booking" where
  "noShowSet now savedAt b =
     b\<lparr>status := NoShow, noShowMarkedAt := Some now, updatedAt := savedAt\<rparr>"

definition markNoShowAppointments ::
  "int \<Rightarrow> int \<Rightarrow> booking list \<Rightarrow> booking list \<times> nat" where
  "markNoShowAppointments now savedAt bs =
     (map (\<lambda>b. if noShowFilter now b then noShowSet now savedAt b else b) bs,
      length (filter (noShowFilter now) bs))"

section \<open>Numbers and strings of the runtime\<close>

text \<open>
  \<^verbatim>\<open>Number.prototype.toString()\<close> on an integer: its decimal digits, with a minus
  sign below zero. \<^verbatim>\<open>padStart(2, '0')\<close> fills up to two characters from the left.
\<close>

definition digitChar :: "nat \<Rightarrow> char" where
  "digitChar d = ''0123456789'' ! (d mod 10)"

function toStringNat :: "nat \<Rightarrow> string" where
  "toStringNat n = (if n < 10 then [digitChar n] else toStringNat (n div 10) @ [digitChar (n mod 10)])"
  by pat_completeness auto
termination
  by (relation "measure (\<lambda>n. n)") auto

declare toStringNat.simps [simp del]

definition toString :: "int \<Rightarrow> string" where
  "toString i = (if i < 0 then CHR ''-'' # toStringNat (nat (- i)) else toStringNat (nat i))"

definition padStart2 :: "string \<Rightarrow> string" where
  "padStart2 s = replicate (2 - length s) CHR ''0'' @ s"

definition isDigit :: "char \<Rightarrow> bool" where
  "isDigit c \<longleftrightarrow> c \<in> set ''0123456789''"

definition digitVal :: "char \<Rightarrow> nat" where
  "digitVal c = length (takeWhile (\<lambda>d. d \<noteq> c) ''0123456789'')"

text \<open>
  \<^verbatim>\<open>parseInt(s)\<close> on a string without leading blanks, sign or radix prefix: the
  number written by the leading decimal digits, \<^verbatim>\<open>NaN\<close> (here \<open>None\<close>) when
  there is none.
\<close>

definition parseInt :: "string \<Rightarrow> nat option" where
  "parseInt s =
     (let ds = takeWhile isDigit s
      in if ds = [] then None else Some (foldl (\<lambda>acc c. 10 * acc + digitVal c) 0 ds))"

text \<open>\<^verbatim>\<open>s.split(':')[0]\<close>: the part of \<open>s\<close> before the first colon.\<close>

definition beforeColon :: "string \<Rightarrow> string" where
  "beforeColon s = takeWhile (\<lambda>c. c \<noteq> CHR '':'') s"

text \<open>
  \<^verbatim>\<open>Math.floor(lo + Math.random() * width)\<close>: the random draw is a real \<open>r\<close> with
  \<open>0 \<le> r < 1\<close>.
\<close>

definition randomInt :: "int \<Rightarrow> int \<Rightarrow> real \<Rightarrow> int" where
  "randomInt lo width r = \<lfloor>of_int lo + r * of_int width\<rfloor>"

section \<open>Local time\<close>

text \<open>
  The server's local time is UTC shifted by a fixed offset \<open>tz\<close> in milliseconds
  (19800000 for the clinic's zone). \<open>localDay\<close> numbers the local calendar days,
  so \<^verbatim>\<open>a.toDateString() === b.toDateString()\<close> is equality of \<open>localDay\<close>;
  \<open>startOfDay\<close> is \<^verbatim>\<open>setHours(0, 0, 0, 0)\<close>, \<open>endOfDay\<close> is
  \<^verbatim>\<open>setHours(23, 59, 59, 999)\<close> and \<open>getHours\<close> the local hour.
\<close>

definition msPerDay :: int where
  "msPerDay = 24 * 60 * 60 * 1000"

definition localDay :: "int \<Rightarrow> int \<Rightarrow> int" where
  "localDay tz t = (t + tz) div msPerDay"

definition startOfDay :: "int \<Rightarrow> int \<Rightarrow> int" where
  "startOfDay tz t = localDay tz t * msPerDay - tz"

definition endOfDay :: "int \<Rightarrow> int \<Rightarrow> int" where
  "endOfDay tz t = startOfDay tz t + (23 * 3600000 + 59 * 60000 + 59 * 1000 + 999)"

definition getHours :: "int \<Rightarrow> int \<Rightarrow> int" where
  "getHours tz t = ((t + tz) mod msPerDay) div 3600000"

section \<open>Route handlers (routes/bookings.js)\<close>

text \<open>
  Each handler takes what its request carries, the clock readings it makes and the
  result \<open>found\<close> of \<^verbatim>\<open>Booking.findById\<close> (\<open>None\<close> for \<^verbatim>\<open>null\<close>);
  \<open>caller\<close> is \<^verbatim>\<open>req.user.userId\<close> of the \<^verbatim>\<open>protect\<close> middleware. The order of the
  checks is the order of the source. \<open>savedAt\<close> is the clock reading of the
  library at the handler's \<^verbatim>\<open>save()\<close>. The e-mails that some handlers send are
  best effort (a failure is logged and swallowed) and are not modelled.
\<close>

text \<open>The validator \<^verbatim>\<open>optional().isLength({ min, max })\<close> on an optional string.\<close>

definition optLength :: "nat \<Rightarrow> nat \<Rightarrow> string option \<Rightarrow> bool" where
  "optLength lo hi s = (case s of None \<Rightarrow> True | Some x \<Rightarrow> lo \<le> length x \<and> length x \<le> hi)"

text \<open>
  The validator of \<^verbatim>\<open>appointmentTime\<close>:
  \<^verbatim>\<open>/^([0-1]?[0-9]|2[0-3]):[0-5][0-9]$/\<close>.
\<close>

fun validTime :: "string \<Rightarrow> bool" where
  "validTime [h, c, m1, m2] =
     (isDigit h \<and> c = CHR '':'' \<and> m1 \<in> set ''012345'' \<and> isDigit m2)"
| "validTime [h1, h2, c, m1, m2] =
     (((h1 \<in> set ''01'' \<and> isDigit h2) \<or> (h1 = CHR ''2'' \<and> h2 \<in> set ''0123''))
      \<and> c = CHR '':'' \<and> m1 \<in> set ''012345'' \<and> isDigit m2)"
| "validTime s = False"

subsection \<open>PATCH /:id/status\<close>

definition updateStatus ::
  "string \<Rightarrow> int \<Rightarrow> int \<Rightarrow> status \<Rightarrow> string option \<Rightarrow> booking option
     \<Rightarrow> error + booking" where
  "updateStatus caller now savedAt st reason found =
     (if st \<notin> set [Pending, Confirmed, InProgress, Completed, Cancelled, Rescheduled]
         \<or> \<not> optLength 5 500 reason
      then Inl ValidationFailed
      else case found of
        None \<Rightarrow> Inl BookingNotFound
      | Some b \<Rightarrow>
          if user b \<noteq> caller then Inl AccessDenied
          else if st = Cancelled then
            (case reason of
               None \<Rightarrow> Inl CancellationReasonRequired
             | Some x \<Rightarrow> if x = [] then Inl CancellationReasonRequired
                         else save savedAt b (cancelBooking now x b))
          else save savedAt b (b\<lparr>status := st\<rparr>))"

subsection \<open>PATCH /:id/reschedule\<close>

text \<open>
  The body's \<^verbatim>\<open>appointmentDate\<close> is an ISO 8601 string; \<open>newDate\<close> is the time
  value of its \<^verbatim>\<open>Date\<close>. \<open>now\<close> is the reading compared with it, \<open>stamp\<close> the
  reading inside \<^verbatim>\<open>rescheduleBooking\<close>. A \<^verbatim>\<open>throw\<close> of the model method
  would reach the handler's \<^verbatim>\<open>catch\<close> (500).
\<close>

definition reschedule ::
  "string \<Rightarrow> int \<Rightarrow> int \<Rightarrow> int \<Rightarrow> int \<Rightarrow> string \<Rightarrow> booking option
     \<Rightarrow> error + booking" where
  "reschedule caller now stamp savedAt newDate newTime found =
     (if \<not> validTime newTime then Inl ValidationFailed
      else case found of
        None \<Rightarrow> Inl BookingNotFound
      | Some b \<Rightarrow>
          if user b \<noteq> caller then Inl AccessDenied
          else if newDate < now then Inl NewDateMustBeInFuture
          else if status b \<in> set [Completed, Cancelled]
            then Inl CannotRescheduleCompletedOrCancelled
          else if rescheduleCount b \<ge> 1 then Inl RescheduledOnlyOnce
          else (case rescheduleBooking stamp newDate newTime b of
                  Inl e \<Rightarrow> Inl ServerError
                | Inr b' \<Rightarrow> save savedAt b b'))"

subsection \<open>PATCH /:id/feedback and PUT /:id/rate\<close>

text \<open>
  The review that the feedback handler adds to the treatment after the booking is
  saved belongs to the treatment catalogue and is not modelled.
\<close>

definition feedbackRoute ::
  "string \<Rightarrow> int \<Rightarrow> int \<Rightarrow> int \<Rightarrow> string option \<Rightarrow> booking option
     \<Rightarrow> error + booking" where
  "feedbackRoute caller now savedAt r fb found =
     (if r < 1 \<or> r > 5 \<or> \<not> optLength 10 1000 fb then Inl ValidationFailed
      else case found of
        None \<Rightarrow> Inl BookingNotFound
      | Some b \<Rightarrow>
          if user b \<noteq> caller then Inl AccessDenied
          else if status b \<noteq> Completed then Inl OnlyCompletedCanBeRated
          else save savedAt b (addFeedback now r fb b))"

definition rateRoute ::
  "string \<Rightarrow> int \<Rightarrow> int \<Rightarrow> string option \<Rightarrow> booking option \<Rightarrow> error + booking" where
  "rateRoute caller savedAt r comment found =
     (if r < 1 \<or> r > 5 \<or> \<not> optLength 0 500 comment then Inl ValidationFailed
      else case found of
        None \<Rightarrow> Inl BookingNotFound
      | Some b \<Rightarrow>
          if user b \<noteq> caller then Inl AccessDenied
          else if status b \<noteq> Completed then Inl OnlyCompletedCanBeRated
          else save savedAt b (b\<lparr>rating := Some r, ratingComment := comment\<rparr>))"

subsection \<open>PUT /:id/cancel\<close>

definition cancelRoute :: "string \<Rightarrow> int \<Rightarrow> booking option \<Rightarrow> error + booking" where
  "cancelRoute caller savedAt found =
     (case found of
        None \<Rightarrow> Inl BookingNotFound
      | Some b \<Rightarrow>
          if user b \<noteq> caller then Inl AccessDenied
          else if status b \<notin> set [Pending, Confirmed] then Inl CannotBeCancelled
          else save savedAt b (b\<lparr>status := Cancelled\<rparr>))"

subsection \<open>POST /:id/checkin\<close>

text \<open>
  The handler builds the appointment's instant from the UTC calendar date of
  \<^verbatim>\<open>appointmentDate\<close> (\<^verbatim>\<open>toISOString().split('T')[0]\<close>) and the string
  \<^verbatim>\<open>appointmentTime\<close>: \<^verbatim>\<open>new Date(`${date}T${time}`)\<close>. The date part is
  well formed, so the runtime reads the string by the date-time format of
  the language standard, and what follows the \<^verbatim>\<open>T\<close> must be a time of that
  format: \<^verbatim>\<open>HH:mm\<close>, optionally \<^verbatim>\<open>:ss\<close>, optionally a fraction of the second
  after a dot, optionally a zone, \<^verbatim>\<open>Z\<close> or a sign with \<^verbatim>\<open>hh:mm\<close> or
  \<^verbatim>\<open>hhmm\<close>; each number has exactly two digits (four in \<^verbatim>\<open>hhmm\<close>), the hour is
  at most 23, or 24 with nothing but zeros after it, minutes and seconds are at
  most 59, and the first three digits of the fraction count. Without a zone the
  time is local time. Any other string gives an invalid \<^verbatim>\<open>Date\<close>, here
  \<open>None\<close>: its time value is \<^verbatim>\<open>NaN\<close>, and every comparison with it is false.
  A time with a one-digit hour, which the validator of the routes admits, is
  such a string.
\<close>

definition digitsValue :: "string \<Rightarrow> nat" where
  "digitsValue ds = foldl (\<lambda>acc c. 10 * acc + digitVal c) 0 ds"

text \<open>A number of exactly two digits at the head of the string, and the rest.\<close>

definition twoDigits :: "string \<Rightarrow> (nat \<times> string) option" where
  "twoDigits s =
     (let ds = takeWhile isDigit s
      in if length ds = 2 then Some (digitsValue ds, dropWhile isDigit s) else None)"

datatype zone = LocalTime | Offset int

text \<open>The zone at the end of the string; the offset is in milliseconds east of UTC.\<close>

definition parseZone :: "string \<Rightarrow> zone option" where
  "parseZone s =
     (case s of
        [] \<Rightarrow> Some LocalTime
      | c # r \<Rightarrow>
          if c = CHR ''Z'' \<or> c = CHR ''z'' then (if r = [] then Some (Offset 0) else None)
          else if c = CHR ''+'' \<or> c = CHR ''-'' then
            (let ds = takeWhile isDigit r;
                 rest = dropWhile isDigit r;
                 sgn = (if c = CHR ''+'' then 1 else - 1)
             in if length ds = 4 then
                  (let h = digitsValue (take 2 ds); m = digitsValue (drop 2 ds)
                   in if rest = [] \<and> h \<le> 23 \<and> m \<le> 59
                      then Some (Offset (sgn * int (h * 60 + m) * 60000)) else None)
                else if length ds = 2 then
                  (case rest of
                     [] \<Rightarrow> None
                   | c' # r' \<Rightarrow>
                       (case twoDigits r' of
                          None \<Rightarrow> None
                        | Some (m, end') \<Rightarrow>
                            if c' = CHR '':'' \<and> end' = [] \<and> digitsValue ds \<le> 23 \<and> m \<le> 59
                            then Some (Offset (sgn * int (digitsValue ds * 60 + m) * 60000))
                            else None))
                else None)
          else None)"

text \<open>The digits of the fraction after the seconds, none when there is no dot.\<close>

definition parseFraction :: "string \<Rightarrow> (string \<times> string) option" where
  "parseFraction s =
     (case s of
        [] \<Rightarrow> Some ([], [])
      | c # r \<Rightarrow>
          if c = CHR ''.''
          then (let ds = takeWhile isDigit r
                in if ds = [] then None else Some (ds, dropWhile isDigit r))
          else Some ([], s))"

text \<open>The seconds and the fraction after the minutes, zero when there is no colon.\<close>

definition parseSeconds :: "string \<Rightarrow> (nat \<times> string \<times> string) option" where
  "parseSeconds s =
     (case s of
        [] \<Rightarrow> Some (0, [], [])
      | c # r \<Rightarrow>
          if c = CHR '':''
          then (case twoDigits r of
                  None \<Rightarrow> None
                | Some (sec, r') \<Rightarrow>
                    (case parseFraction r' of
                       None \<Rightarrow> None
                     | Some (fr, rest) \<Rightarrow> Some (sec, fr, rest)))
          else Some (0, [], s))"

definition millisOfFraction :: "string \<Rightarrow> nat" where
  "millisOfFraction fr = digitsValue (take 3 (fr @ ''00''))"

text \<open>The time of day in milliseconds and the zone; \<open>None\<close> for an invalid date.\<close>

definition parseTimeOfDay :: "string \<Rightarrow> (int \<times> zone) option" where
  "parseTimeOfDay s =
     (case twoDigits s of
        None \<Rightarrow> None
      | Some (h, r1) \<Rightarrow>
          (case r1 of
             [] \<Rightarrow> None
           | c # r2 \<Rightarrow>
               if c \<noteq> CHR '':'' then None
               else (case twoDigits r2 of
                       None \<Rightarrow> None
                     | Some (m, r3) \<Rightarrow>
                         (case parseSeconds r3 of
                            None \<Rightarrow> None
                          | Some (sec, fr, r4) \<Rightarrow>
                              (case parseZone r4 of
                                 None \<Rightarrow> None
                               | Some z \<Rightarrow>
                                   if (h \<le> 23 \<and> m \<le> 59 \<and> sec \<le> 59)
                                      \<or> (h = 24 \<and> m = 0 \<and> sec = 0
                                          \<and> list_all (\<lambda>d. d = CHR ''0'') fr)
                                   then Some (int (((h * 60 + m) * 60 + sec) * 1000
                                                     + millisOfFraction fr), z)
                                   else None)))))"

definition appointmentDateTime :: "int \<Rightarrow> booking \<Rightarrow> int option" where
  "appointmentDateTime tz b =
     (case parseTimeOfDay (appointmentTime b) of
        None \<Rightarrow> None
      | Some (ms, z) \<Rightarrow>
          Some ((appointmentDate b div msPerDay) * msPerDay + ms
                - (case z of LocalTime \<Rightarrow> tz | Offset off \<Rightarrow> off)))"

text \<open>\<^verbatim>\<open>now < checkInStart || now > checkInEnd\<close>.\<close>

definition outsideCheckInWindow :: "int \<Rightarrow> int option \<Rightarrow> bool" where
  "outsideCheckInWindow now adt =
     (case adt of
        None \<Rightarrow> False
      | Some a \<Rightarrow> now < a - 15 * 60 * 1000 \<or> now > a + 60 * 60 * 1000)"

definition generateOTP :: "real \<Rightarrow> string" where
  "generateOTP r = toString (randomInt 100000 900000 r)"

text \<open>
  \<open>now\<close> is the reading compared with the window, \<open>r\<close> the random draw of the
  OTP and \<open>checkInTime\<close> the second reading, the one that is stored.
\<close>

definition checkin ::
  "int \<Rightarrow> string \<Rightarrow> int \<Rightarrow> real \<Rightarrow> int \<Rightarrow> int \<Rightarrow> booking option
     \<Rightarrow> error + booking" where
  "checkin tz caller now r checkInTime' savedAt found =
     (case found of
        None \<Rightarrow> Inl BookingNotFound
      | Some b \<Rightarrow>
          if user b \<noteq> caller then Inl AccessDenied
          else if outsideCheckInWindow now (appointmentDateTime tz b)
            then Inl OutsideCheckInWindow
          else if checkedIn b then Inl AlreadyCheckedIn
          else save savedAt b
                 (b\<lparr>checkedIn := True,
                    checkInTime := Some checkInTime',
                    checkoutOTP := Some (generateOTP r),
                    status := InProgress,
                    checkOutEligibleTime := Some (checkInTime' + 20 * 60 * 1000),
                    canCheckOut := False\<rparr>))"

subsection \<open>POST /:id/user-checkout\<close>

text \<open>
  \<^verbatim>\<open>booking.checkOutEligibleTime || new Date(booking.checkInTime.getTime() + 20 * 60 * 1000)\<close>;
  with both fields undefined the expression throws (\<open>None\<close>) and the handler's
  \<^verbatim>\<open>catch\<close> answers 500.
\<close>

definition eligibleTime :: "booking \<Rightarrow> int option" where
  "eligibleTime b =
     (case checkOutEligibleTime b of
        Some e \<Rightarrow> Some e
      | None \<Rightarrow> (case checkInTime b of
                   None \<Rightarrow> None
                 | Some t \<Rightarrow> Some (t + 20 * 60 * 1000)))"

text \<open>\<^verbatim>\<open>Math.ceil((checkOutEligibleTime - now) / (1000 * 60))\<close>.\<close>

definition minutesLeft :: "int \<Rightarrow> int \<Rightarrow> int" where
  "minutesLeft e now = \<lceil>real_of_int (e - now) / (1000 * 60)\<rceil>"

definition userCheckout ::
  "string \<Rightarrow> int \<Rightarrow> int \<Rightarrow> int \<Rightarrow> booking option \<Rightarrow> error + booking" where
  "userCheckout caller now checkOutTime' savedAt found =
     (case found of
        None \<Rightarrow> Inl BookingNotFound
      | Some b \<Rightarrow>
          if user b \<noteq> caller then Inl AccessDenied
          else if \<not> checkedIn b then Inl MustCheckInFirst
          else if checkedOut b then Inl AlreadyCheckedOut
          else (case eligibleTime b of
                  None \<Rightarrow> Inl ServerError
                | Some e \<Rightarrow>
                    if now < e then Inl (WaitMinutes (minutesLeft e now))
                    else save savedAt b
                           (b\<lparr>checkedOut := True,
                              checkOutTime := Some checkOutTime',
                              status := Completed,
                              canCheckOut := True,
                              checkoutOTP := None\<rparr>)))"

subsection \<open>POST /:id/checkout (staff, with the OTP)\<close>

definition checkout ::
  "int \<Rightarrow> int \<Rightarrow> string \<Rightarrow> string \<Rightarrow> booking option \<Rightarrow> error + booking" where
  "checkout checkOutTime' savedAt otp adminId found =
     (if length otp \<noteq> 6 \<or> adminId = [] then Inl ValidationFailed
      else case found of
        None \<Rightarrow> Inl BookingNotFound
      | Some b \<Rightarrow>
          if \<not> checkedIn b then Inl NotCheckedInYet
          else if checkedOut b then Inl PatientAlreadyCheckedOut
          else if checkoutOTP b \<noteq> Some otp then Inl InvalidOTP
          else save savedAt b
                 (b\<lparr>checkedOut := True,
                    checkOutTime := Some checkOutTime',
                    status := Completed,
                    adminCheckout := Some adminId,
                    checkoutOTP := None\<rparr>))"

subsection \<open>GET /:id\<close>

text \<open>
  The answer carries the document with \<^verbatim>\<open>canCheckOut\<close> and
  \<^verbatim>\<open>minutesUntilCheckout\<close> computed by the handler; \<open>written\<close> is the stored
  document after \<^verbatim>\<open>booking.save()\<close>, \<open>None\<close> when the handler did not save.
  The handler assigns \<^verbatim>\<open>canCheckOut\<close> only, so \<^verbatim>\<open>save()\<close> validates the
  status as it is stored and throws when it is outside the enum.
\<close>

record get_result =
  canCheckOutNow :: bool
  minutesUntilCheckout :: int
  written :: "booking option"

definition getBooking ::
  "string \<Rightarrow> int \<Rightarrow> int \<Rightarrow> booking option \<Rightarrow> error + get_result" where
  "getBooking caller now savedAt found =
     (case found of
        None \<Rightarrow> Inl BookingNotFound
      | Some b \<Rightarrow>
          if user b \<noteq> caller then Inl AccessDenied
          else if checkedIn b \<and> \<not> checkedOut b then
            (case eligibleTime b of
               None \<Rightarrow> Inl ServerError
             | Some e \<Rightarrow>
                 if now \<ge> e
                 then (case save savedAt b (b\<lparr>canCheckOut := True\<rparr>) of
                         Inl err \<Rightarrow> Inl err
                       | Inr w \<Rightarrow> Inr \<lparr>canCheckOutNow = True, minutesUntilCheckout = 0,
                                       written = Some w\<rparr>)
                 else Inr \<lparr>canCheckOutNow = False, minutesUntilCheckout = minutesLeft e now,
                           written = None\<rparr>)
          else Inr \<lparr>canCheckOutNow = False, minutesUntilCheckout = 0, written = None\<rparr>)"

text \<open>The stored document after a GET on the stored document \<open>b\<close>.\<close>

definition stored_after_get :: "booking \<Rightarrow> error + get_result \<Rightarrow> booking" where
  "stored_after_get b r =
     (case r of
        Inl e \<Rightarrow> b
      | Inr g \<Rightarrow> (case written g of None \<Rightarrow> b | Some b' \<Rightarrow> b'))"

subsection \<open>PATCH /admin/:id/status\<close>

definition adminUpdateStatus ::
  "int \<Rightarrow> int \<Rightarrow> status \<Rightarrow> string option \<Rightarrow> string option \<Rightarrow> booking option
     \<Rightarrow> error + booking" where
  "adminUpdateStatus now savedAt st adminNotes reason found =
     (if st \<notin> set [Confirmed, InProgress, Completed, Cancelled, Rescheduled, NoShow]
         \<or> \<not> optLength 0 1000 adminNotes \<or> \<not> optLength 5 500 reason
      then Inl ValidationFailed
      else case found of
        None \<Rightarrow> Inl BookingNotFound
      | Some b \<Rightarrow>
          if st = Cancelled then
            (case reason of
               None \<Rightarrow> Inl CancellationReasonRequired
             | Some x \<Rightarrow> if x = [] then Inl CancellationReasonRequired
                         else save savedAt b (cancelBooking now x b))
          else if st = NoShow then save savedAt b (markAsNoShow now b)
          else if st = Completed then save savedAt b (completeBooking b)
          else save savedAt b (b\<lparr>status := st,
                              notes_field := (case adminNotes of
                                                None \<Rightarrow> notes_field b
                                              | Some x \<Rightarrow> if x = [] then notes_field b
                                                          else Some x)\<rparr>))"

subsection \<open>PATCH /admin/bulk-update, one booking of the loop\<close>

datatype bulk_action = BulkCancel | BulkConfirm | BulkReschedule | BulkNoShow

record bulk_data =
  dataCancellationReason :: "string option"
  dataAppointmentDate :: "int option"
  dataAppointmentTime :: "string option"

definition bulkUpdateOne ::
  "bulk_action \<Rightarrow> bulk_data \<Rightarrow> int \<Rightarrow> int \<Rightarrow> booking option \<Rightarrow> error + booking" where
  "bulkUpdateOne action d now savedAt found =
     (case found of
        None \<Rightarrow> Inl BookingNotFound
      | Some b \<Rightarrow>
          (case action of
             BulkCancel \<Rightarrow>
               save savedAt b (cancelBooking now
                      (case dataCancellationReason d of
                         None \<Rightarrow> ''Cancelled by admin''
                       | Some x \<Rightarrow> if x = [] then ''Cancelled by admin'' else x) b)
           | BulkConfirm \<Rightarrow> save savedAt b (b\<lparr>status := Confirmed\<rparr>)
           | BulkNoShow \<Rightarrow> save savedAt b (markAsNoShow now b)
           | BulkReschedule \<Rightarrow>
               if status b \<in> set [Completed, Cancelled, NoShow]
                 then Inl (CannotRescheduleStatus (status b))
               else if rescheduleCount b \<ge> 1 then Inl RescheduledOnlyOnce
               else (case (dataAppointmentDate d, dataAppointmentTime d) of
                       (Some nd, Some nt) \<Rightarrow>
                         if nt = [] then Inl DateAndTimeRequired
                         else (case rescheduleBooking now nd nt b of
                                 Inl e \<Rightarrow> Inl e
                               | Inr b' \<Rightarrow> save savedAt b b')
                     | _ \<Rightarrow> Inl DateAndTimeRequired)))"

subsection \<open>GET /availability/:date\<close>

text \<open>
  \<open>date\<close> is the time value of \<^verbatim>\<open>new Date(req.params.date)\<close>, \<open>None\<close> when
  the date is invalid; \<open>today\<close> is the clock reading; \<open>bs\<close> is the collection.
  \<open>findDayBookings\<close> is the query of \<^verbatim>\<open>Booking.find\<close>: \<^verbatim>\<open>$gte\<close> the start of
  the local day of the date, \<^verbatim>\<open>$lt\<close> its 23:59:59.999, the location and the three
  statuses. The two \<^verbatim>\<open>setHours\<close> calls change the date object in place, so the
  second one and the later \<^verbatim>\<open>toDateString()\<close> work on the changed object.
\<close>

record slot_detail =
  time :: string
  isAvailable :: bool
  isBooked :: bool
  isPastTime :: bool

record availability =
  availableSlots :: "string list"
  bookedSlots :: "string list"
  slotDetails :: "slot_detail list"
  totalSlots :: nat
  availableCount :: nat
  fullyBooked :: bool

definition timeSlots :: "string list" where
  "timeSlots = map (\<lambda>hour. padStart2 (toString hour) @ '':00'') [10..19]"

definition findDayBookings :: "int \<Rightarrow> int \<Rightarrow> string \<Rightarrow> booking list \<Rightarrow> booking list" where
  "findDayBookings dayStart dayEnd loc bs =
     filter (\<lambda>b. dayStart \<le> appointmentDate b \<and> appointmentDate b < dayEnd
                 \<and> location b = loc
                 \<and> status b \<in> set [Pending, Confirmed, InProgress]) bs"

definition slotDetail :: "booking list \<Rightarrow> bool \<Rightarrow> int \<Rightarrow> string \<Rightarrow> slot_detail" where
  "slotDetail existingBookings isToday currentHour slot =
     (let booked = list_ex (\<lambda>b. appointmentTime b = slot) existingBookings;
          pastTime = (if isToday
                      then (case parseInt (beforeColon slot) of
                              None \<Rightarrow> False
                            | Some slotHour \<Rightarrow> int slotHour \<le> currentHour + 1)
                      else False)
      in \<lparr>time = slot, isAvailable = (\<not> booked \<and> \<not> pastTime),
           isBooked = booked, isPastTime = pastTime\<rparr>)"

definition dayAvailability ::
  "int \<Rightarrow> int \<Rightarrow> int option \<Rightarrow> string \<Rightarrow> booking list \<Rightarrow> error + availability" where
  "dayAvailability tz today date loc bs =
     (if loc \<notin> set [''Jubilee Hills'', ''Kokapet'', ''Kondapur''] then Inl ValidationFailed
      else case date of
        None \<Rightarrow> Inl InvalidDateFormat
      | Some appointmentDate0 \<Rightarrow>
          if appointmentDate0 < startOfDay tz today then Inl PastDate
          else
            (let dayStart = startOfDay tz appointmentDate0;
                 dayEnd = endOfDay tz dayStart;
                 existingBookings = findDayBookings dayStart dayEnd loc bs;
                 isToday = (localDay tz dayEnd = localDay tz today);
                 currentHour = getHours tz today;
                 details = map (slotDetail existingBookings isToday currentHour) timeSlots;
                 available = map time (filter isAvailable details)
             in Inr \<lparr>availableSlots = available,
                      bookedSlots = map appointmentTime existingBookings,
                      slotDetails = details,
                      totalSlots = length timeSlots,
                      availableCount = length available,
                      fullyBooked = (length available = 0)\<rparr>))"

subsection \<open>The booking reference\<close>

text \<open>
  Both the POST handler and the schema's \<^verbatim>\<open>pre('save')\<close> hook build the reference
  from a prefix, the calendar date of a clock reading and a random draw. \<open>year\<close>,
  \<open>month\<close> and \<open>day\<close> are \<^verbatim>\<open>getFullYear()\<close>, \<^verbatim>\<open>getMonth()\<close> (counted
  from 0) and \<^verbatim>\<open>getDate()\<close> of that reading. The handler reads the date in the
  clinic's zone, the hook in the server's; the hook runs when the new document is
  saved and its reference replaces the handler's.
\<close>

definition dateStr :: "int \<Rightarrow> int \<Rightarrow> int \<Rightarrow> string" where
  "dateStr year month day =
     toString year @ padStart2 (toString (month + 1)) @ padStart2 (toString day)"

definition generateReference :: "string \<Rightarrow> int \<Rightarrow> int \<Rightarrow> int \<Rightarrow> real \<Rightarrow> string" where
  "generateReference prefix year month day r =
     prefix @ dateStr year month day @ toString (randomInt 1000 9000 r)"

definition routeBookingReference :: "int \<Rightarrow> int \<Rightarrow> int \<Rightarrow> real \<Rightarrow> string" where
  "routeBookingReference year month day r = generateReference ''ZEN'' year month day r"

definition preSave :: "bool \<Rightarrow> int \<Rightarrow> int \<Rightarrow> int \<Rightarrow> real \<Rightarrow> booking \<Rightarrow> booking" where
  "preSave isNew year month day r b =
     (if isNew then b\<lparr>bookingReference := generateReference ''ZEN'' year month day r\<rparr>
      else b)"

text \<open>
  The document that the POST handler constructs, with the schema's defaults for the
  paths it does not set, as it is stored by the first \<^verbatim>\<open>save()\<close> at the clock
  reading \<open>savedAt\<close> of the library.
\<close>

definition newBooking ::
  "string \<Rightarrow> string \<Rightarrow> int \<Rightarrow> string \<Rightarrow> string \<Rightarrow> int \<Rightarrow> booking" where
  "newBooking caller loc date t ref savedAt =
     \<lparr>user = caller, location = loc, appointmentDate = date, appointmentTime = t,
      status = Confirmed, notes_field = None, bookingReference = ref,
      cancellationReason = None, cancelledAt = None, rescheduledFrom = None,
      rescheduledAt = None, rescheduleCount = 0, noShowMarkedAt = None,
      rating = None, ratingComment = None, feedback = None, feedbackDate = None,
      checkedIn = False, checkInTime = None, checkoutOTP = None, checkedOut = False,
      checkOutTime = None, adminCheckout = None, canCheckOut = False,
      checkOutEligibleTime = None, updatedAt = savedAt\<rparr>"

section \<open>Specification-side notions\<close>

text \<open>
  \<open>zeroPadded k n\<close> is the decimal numeral of \<open>n\<close> in exactly \<open>k\<close> digits,
  the most significant first, filled with zeros from the left: what the
  specification calls a \<open>k\<close>-digit number.
\<close>

fun zeroPadded :: "nat \<Rightarrow> nat \<Rightarrow> string" where
  "zeroPadded 0 n = []"
| "zeroPadded (Suc k) n = zeroPadded k (n div 10) @ [digitChar (n mod 10)]"

section \<open>The operations on one stored booking\<close>

text \<open>
  The admin payment-status update and the two reminder handlers assign paths that
  the record leaves out (\<^verbatim>\<open>paymentStatus\<close>, \<^verbatim>\<open>paymentUpdatedAt\<close>,
  \<^verbatim>\<open>fullyProcessed\<close>, \<^verbatim>\<open>remindersSent\<close>) and call \<^verbatim>\<open>save()\<close>: of the
  paths of the record they write \<^verbatim>\<open>updatedAt\<close> only. \<open>otherWrite\<close> is the
  effect of such a handler when it reaches its \<^verbatim>\<open>save()\<close>.
\<close>

definition otherWrite :: "int \<Rightarrow> booking option \<Rightarrow> error + booking" where
  "otherWrite savedAt found =
     (case found of
        None \<Rightarrow> Inl BookingNotFound
      | Some b \<Rightarrow>
          if status b \<notin> set statusEnum then Inl ServerError
          else Inr (b\<lparr>updatedAt := savedAt\<rparr>))"

text \<open>
  A request of one of the handlers above, or a run of the sweep, and its effect on
  the stored document \<open>b\<close> that it addresses. The handlers left out (the
  lists, the slip, the prescription, the statistics) write nothing; the delete
  handler ends the life of the document.
\<close>

datatype request =
    ReqUpdateStatus string int int status "string option"
  | ReqReschedule string int int int int string
  | ReqFeedback string int int int "string option"
  | ReqRate string int int "string option"
  | ReqCancel string int
  | ReqCheckin int string int real int int
  | ReqUserCheckout string int int int
  | ReqCheckout int int string string
  | ReqGet string int int
  | ReqAdminStatus int int status "string option" "string option"
  | ReqBulk bulk_action bulk_data int int
  | ReqSweep int int
  | ReqOtherWrite int

fun perform :: "request \<Rightarrow> booking \<Rightarrow> booking" where
  "perform (ReqUpdateStatus caller now savedAt st reason) b =
     stored_after b (updateStatus caller now savedAt st reason (Some b))"
| "perform (ReqReschedule caller now stamp savedAt newDate newTime) b =
     stored_after b (reschedule caller now stamp savedAt newDate newTime (Some b))"
| "perform (ReqFeedback caller now savedAt r fb) b =
     stored_after b (feedbackRoute caller now savedAt r fb (Some b))"
| "perform (ReqRate caller savedAt r comment) b =
     stored_after b (rateRoute caller savedAt r comment (Some b))"
| "perform (ReqCancel caller savedAt) b = stored_after b (cancelRoute caller savedAt (Some b))"
| "perform (ReqCheckin tz caller now r t savedAt) b =
     stored_after b (checkin tz caller now r t savedAt (Some b))"
| "perform (ReqUserCheckout caller now t savedAt) b =
     stored_after b (userCheckout caller now t savedAt (Some b))"
| "perform (ReqCheckout t savedAt otp adminId) b =
     stored_after b (checkout t savedAt otp adminId (Some b))"
| "perform (ReqGet caller now savedAt) b =
     stored_after_get b (getBooking caller now savedAt (Some b))"
| "perform (ReqAdminStatus now savedAt st adminNotes reason) b =
     stored_after b (adminUpdateStatus now savedAt st adminNotes reason (Some b))"
| "perform (ReqBulk action d now savedAt) b =
     stored_after b (bulkUpdateOne action d now savedAt (Some b))"
| "perform (ReqSweep now savedAt) b =
     (if noShowFilter now b then noShowSet now savedAt b else b)"
| "perform (ReqOtherWrite savedAt) b = stored_after b (otherWrite savedAt (Some b))"

text \<open>The stored document after a sequence of requests, the first one first.\<close>

fun run :: "request list \<Rightarrow> booking \<Rightarrow> booking" where
  "run [] b = b"
| "run (q # qs) b = run qs (perform q b)"

text \<open>
  After a check-in the document holds the check-in time and the eligible time 20
  minutes later; no other operation writes either path.
\<close>

definition checkinConsistent :: "booking \<Rightarrow> bool" where
  "checkinConsistent b =
     (if checkedIn b
      then (case checkInTime b of
              None \<Rightarrow> False
            | Some t \<Rightarrow> checkOutEligibleTime b = Some (t + 20 * 60 * 1000))
      else True)"

text \<open>
  A booking for 2030-01-15 10:00 in the clinic's zone, made by user \<open>u1\<close> on
  2026-11-01, as the POST handler stores it; the example of the concrete
  evaluations below.
\<close>

definition sampleBooking :: booking where
  "sampleBooking =
     newBooking ''u1'' ''Kokapet'' 1894681800000 ''10:00'' ''ZEN202611015500'' 1793491100000"

text \<open>
  The sample booking after one reschedule by its owner, to 2030-01-16 at 14:00,
  requested on 2026-11-01.
\<close>

definition sampleRescheduled :: booking where
  "sampleRescheduled =
     perform (ReqReschedule ''u1'' 1793491200000 1793491200005 1793491200009
                1894752000000 ''14:00'')
       sampleBooking"

text \<open>
  The sample booking after its owner has checked in 15 minutes before the
  appointment.
\<close>

definition sampleCheckedIn :: booking where
  "sampleCheckedIn =
     perform (ReqCheckin 19800000 ''u1'' 1894680900000 (1 / 2) 1894680900007 1894680900009)
       sampleBooking"

text \<open>
  The sample booking after its owner has rescheduled it to the last millisecond of
  the same day, 2030-01-15T23:59:59.999 in the clinic's zone, keeping the slot
  10:00, and has then set its status back to confirmed.
\<close>

definition sampleLastMillisecond :: booking where
  "sampleLastMillisecond =
     run [ReqReschedule ''u1'' 1793491200000 1793491200005 1793491200009
            1894732199999 ''10:00'',
          ReqUpdateStatus ''u1'' 1793491300000 1793491300009 Confirmed None]
       sampleBooking"

text \<open>
  The contents of a document without the paths \<^verbatim>\<open>canCheckOut\<close> and
  \<^verbatim>\<open>updatedAt\<close>: two documents with the same contents differ in those two paths
  at most.
\<close>

definition otherPaths :: "booking \<Rightarrow> booking" where
  "otherPaths b = b\<lparr>canCheckOut := False, updatedAt := 0\<rparr>"

text \<open>
  Two bookings that break the check-in window, both made through the POST handler
  on 2026-11-01 for 2030-01-15 in the clinic's zone: one at 9:30, written with a
  one-digit hour, and one at 03:00, whose instant falls on the day before in UTC.
\<close>

definition sampleOneDigitHour :: booking where
  "sampleOneDigitHour =
     newBooking ''u1'' ''Kokapet'' 1894680000000 ''9:30'' ''ZEN202611015501'' 1793491100000"

definition sampleEarlyMorning :: booking where
  "sampleEarlyMorning =
     newBooking ''u1'' ''Kokapet'' 1894656600000 ''03:00'' ''ZEN202611015502'' 1793491100000"

section \<open>The no-show sweep is exact and idempotent\<close>

lemma noShowSet_not_matching: "\<not> noShowFilter now' (noShowSet now savedAt b)"
  by (simp add: noShowFilter_def noShowSet_def)

lemma sweep_result_not_matching:
  "\<not> noShowFilter now (if noShowFilter now b then noShowSet now savedAt b else b)"
  by (simp add: noShowSet_not_matching)

lemma sweep_length: "length (fst (markNoShowAppointments now savedAt bs)) = length bs"
  by (simp add: markNoShowAppointments_def)

text \<open>
  A later run, at clock reading \<open>now'\<close>, modifies only documents that did not match at
  the earlier reading \<open>now\<close>: those whose appointment date has crossed the cutoff in
  between.
\<close>

lemma sweep_second_run_only_new:
  "snd (markNoShowAppointments now' savedAt' (fst (markNoShowAppointments now savedAt bs)))
     = length (filter (\<lambda>b. noShowFilter now' b \<and> \<not> noShowFilter now b) bs)"
proof (induction bs)
  case Nil
  then show ?case by (simp add: markNoShowAppointments_def)
next
  case (Cons b bs)
  then show ?case
    by (auto simp: markNoShowAppointments_def noShowSet_not_matching)
qed

text \<open>
  Claim C7. The sweep at clock reading \<open>now\<close> turns into no-show exactly the
  documents with status confirmed, \<open>appointmentDate\<close> strictly before
  \<open>now - 30 min\<close> and \<open>checkedIn\<close> not true, stamping \<open>noShowMarkedAt\<close> with
  \<open>now\<close> (and \<open>updatedAt\<close> with the library's reading), and leaves every
  other document as it is; \<open>modifiedCount\<close> is the
  number of those documents. Run again on its own result with the same clock
  reading \<open>now\<close>, it modifies zero documents and returns the collection unchanged. Run
  again at another reading \<open>later\<close>, it modifies the documents that match the
  query at \<open>later\<close> and did not match it at \<open>now\<close>, and no others.
\<close>

theorem C7_sweep_exact_and_idempotent:
  "fst (markNoShowAppointments now savedAt bs)
     = map (\<lambda>b. if status b = Confirmed \<and> appointmentDate b < now - minutes 30 \<and> \<not> checkedIn b
                 then b\<lparr>status := NoShow, noShowMarkedAt := Some now, updatedAt := savedAt\<rparr> else b) bs
   \<and> snd (markNoShowAppointments now savedAt bs)
     = length (filter (\<lambda>b. status b = Confirmed \<and> appointmentDate b < now - minutes 30
                            \<and> \<not> checkedIn b) bs)
   \<and> snd (markNoShowAppointments now savedAgain (fst (markNoShowAppointments now savedAt bs))) = 0
   \<and> fst (markNoShowAppointments now savedAgain (fst (markNoShowAppointments now savedAt bs)))
     = fst (markNoShowAppointments now savedAt bs)
   \<and> snd (markNoShowAppointments later savedAgain (fst (markNoShowAppointments now savedAt bs)))
     = length (filter (\<lambda>b. noShowFilter later b \<and> \<not> noShowFilter now b) bs)"
proof -
  have f: "\<And>b. noShowFilter now b
             \<longleftrightarrow> status b = Confirmed \<and> appointmentDate b < now - minutes 30 \<and> \<not> checkedIn b"
    by (simp add: noShowFilter_def minutes_def)
  have one: "fst (markNoShowAppointments now savedAt bs)
     = map (\<lambda>b. if status b = Confirmed \<and> appointmentDate b < now - minutes 30 \<and> \<not> checkedIn b
                 then b\<lparr>status := NoShow, noShowMarkedAt := Some now, updatedAt := savedAt\<rparr> else b) bs"
    by (simp add: markNoShowAppointments_def f noShowSet_def)
  have two: "snd (markNoShowAppointments now savedAt bs)
     = length (filter (\<lambda>b. status b = Confirmed \<and> appointmentDate b < now - minutes 30
                            \<and> \<not> checkedIn b) bs)"
  proof -
    have "noShowFilter now
          = (\<lambda>b. status b = Confirmed \<and> appointmentDate b < now - minutes 30 \<and> \<not> checkedIn b)"
      by (rule ext) (simp add: f)
    then show ?thesis by (simp add: markNoShowAppointments_def)
  qed
  have three: "snd (markNoShowAppointments now savedAgain (fst (markNoShowAppointments now savedAt bs))) = 0"
    by (simp add: sweep_second_run_only_new)
  have four: "fst (markNoShowAppointments now savedAgain (fst (markNoShowAppointments now savedAt bs)))
     = fst (markNoShowAppointments now savedAt bs)"
    by (simp add: markNoShowAppointments_def noShowSet_not_matching)
  have five: "snd (markNoShowAppointments later savedAgain (fst (markNoShowAppointments now savedAt bs)))
     = length (filter (\<lambda>b. noShowFilter later b \<and> \<not> noShowFilter now b) bs)"
    by (rule sweep_second_run_only_new)
  from one two three four five show ?thesis by blast
qed

section \<open>Decimal strings and the booking reference\<close>

lemma toStringNat_small: "n < 10 \<Longrightarrow> toStringNat n = [digitChar n]"
  by (simp add: toStringNat.simps)

lemma toStringNat_step:
  "10 \<le> n \<Longrightarrow> toStringNat n = toStringNat (n div 10) @ [digitChar (n mod 10)]"
  by (subst toStringNat.simps) simp

lemma zeroPadded_1: "zeroPadded 1 n = [digitChar (n mod 10)]"
  by simp

lemma zeroPadded_2: "zeroPadded 2 n = zeroPadded 1 (n div 10) @ [digitChar (n mod 10)]"
  by (simp add: numeral_2_eq_2)

lemma zeroPadded_3: "zeroPadded 3 n = zeroPadded 2 (n div 10) @ [digitChar (n mod 10)]"
  using zeroPadded.simps(2) [of 2 n] by simp

lemma zeroPadded_4: "zeroPadded 4 n = zeroPadded 3 (n div 10) @ [digitChar (n mod 10)]"
  using zeroPadded.simps(2) [of 3 n] by simp

lemma zeroPadded_5: "zeroPadded 5 n = zeroPadded 4 (n div 10) @ [digitChar (n mod 10)]"
  using zeroPadded.simps(2) [of 4 n] by simp

lemma zeroPadded_6: "zeroPadded 6 n = zeroPadded 5 (n div 10) @ [digitChar (n mod 10)]"
  using zeroPadded.simps(2) [of 5 n] by simp

lemma toStringNat_1: "n < 10 \<Longrightarrow> toStringNat n = zeroPadded 1 n"
  by (simp add: toStringNat_small)

lemma toStringNat_2: "10 \<le> n \<Longrightarrow> n < 100 \<Longrightarrow> toStringNat n = zeroPadded 2 n"
  by (simp add: toStringNat_step [of n] toStringNat_1 zeroPadded_2 del: zeroPadded.simps)

lemma toStringNat_3: "100 \<le> n \<Longrightarrow> n < 1000 \<Longrightarrow> toStringNat n = zeroPadded 3 n"
  by (simp add: toStringNat_step [of n] toStringNat_2 zeroPadded_3 del: zeroPadded.simps)

lemma toStringNat_4: "1000 \<le> n \<Longrightarrow> n < 10000 \<Longrightarrow> toStringNat n = zeroPadded 4 n"
  by (simp add: toStringNat_step [of n] toStringNat_3 zeroPadded_4 del: zeroPadded.simps)

lemma toStringNat_5: "10000 \<le> n \<Longrightarrow> n < 100000 \<Longrightarrow> toStringNat n = zeroPadded 5 n"
  by (simp add: toStringNat_step [of n] toStringNat_4 zeroPadded_5 del: zeroPadded.simps)

lemma toStringNat_6: "100000 \<le> n \<Longrightarrow> n < 1000000 \<Longrightarrow> toStringNat n = zeroPadded 6 n"
  by (simp add: toStringNat_step [of n] toStringNat_5 zeroPadded_6 del: zeroPadded.simps)

lemma isDigit_nth: "i < 10 \<Longrightarrow> isDigit (''0123456789'' ! i)"
  unfolding isDigit_def by (simp add: nth_Cons' )

lemma isDigit_digitChar: "isDigit (digitChar n)"
  unfolding digitChar_def by (rule isDigit_nth) simp

lemma zeroPadded_digits: "c \<in> set (zeroPadded k n) \<Longrightarrow> isDigit c"
  by (induction k n rule: zeroPadded.induct) (auto simp: isDigit_digitChar)

lemma length_zeroPadded: "length (zeroPadded k n) = k"
  by (induction k n rule: zeroPadded.induct) auto

lemma padStart2_zeroPadded: "n < 100 \<Longrightarrow> padStart2 (toStringNat n) = zeroPadded 2 n"
proof (cases "n < 10")
  case True
  then show ?thesis
    by (simp add: padStart2_def toStringNat_small zeroPadded_2 digitChar_def)
next
  case False
  assume "n < 100"
  with False show ?thesis
    by (simp add: padStart2_def toStringNat_2 length_zeroPadded del: zeroPadded.simps)
qed

lemma randomInt_range:
  assumes "0 \<le> r" "r < 1" "0 < w"
  shows "lo \<le> randomInt lo w r \<and> randomInt lo w r \<le> lo + w - 1"
proof -
  have a: "of_int lo \<le> of_int lo + r * of_int w" using assms by simp
  have "r * of_int w < of_int w" using assms by simp
  then have b: "of_int lo + r * of_int w < of_int (lo + w)" by simp
  from a have "lo \<le> randomInt lo w r" unfolding randomInt_def by (simp add: le_floor_iff)
  moreover from b have "randomInt lo w r < lo + w" unfolding randomInt_def by (simp add: floor_less_iff)
  ultimately show ?thesis by simp
qed


lemma digitVal_digitChar: "digitVal (digitChar n) = n mod 10"
proof -
  have "i < 10 \<Longrightarrow> digitVal (''0123456789'' ! i) = i" for i
    unfolding digitVal_def by (simp add: nth_Cons' )
  then show ?thesis unfolding digitChar_def by simp
qed

lemma foldl_zeroPadded:
  "foldl (\<lambda>acc c. 10 * acc + digitVal c) 0 (zeroPadded k n) = n mod 10 ^ k"
proof (induction k n rule: zeroPadded.induct)
  case (1 n)
  then show ?case by simp
next
  case (2 k n)
  have "n mod (10 * 10 ^ k) = 10 * (n div 10 mod 10 ^ k) + n mod 10"
    by (simp add: mod_mult2_eq)
  with 2 show ?case by (simp add: digitVal_digitChar)
qed

lemma takeWhile_zeroPadded: "takeWhile isDigit (zeroPadded k n) = zeroPadded k n"
  by (simp add: zeroPadded_digits)

lemma parseInt_zeroPadded:
  "0 < k \<Longrightarrow> n < 10 ^ k \<Longrightarrow> parseInt (zeroPadded k n) = Some n"
proof -
  assume k: "0 < k" and n: "n < 10 ^ k"
  from k have "zeroPadded k n \<noteq> []"
    using length_zeroPadded [of k n] by auto
  with n show ?thesis
    by (simp add: parseInt_def takeWhile_zeroPadded foldl_zeroPadded Let_def)
qed

lemma toString_nonneg: "0 \<le> i \<Longrightarrow> toString i = toStringNat (nat i)"
  by (simp add: toString_def)

text \<open>
  Claim C9. For every random draw \<open>r\<close> with \<open>0 \<le> r < 1\<close> and every calendar
  date with a four-digit year, the reference that the POST handler computes, and
  the one that the \<^verbatim>\<open>pre('save')\<close> hook assigns to the new document, is the
  prefix \<^verbatim>\<open>ZEN\<close>, the year in four digits, the month (counted from 1) and the
  day in two digits each, zero-filled, and the four digits of a number between
  1000 and 9999; fifteen characters in all.
\<close>

theorem C9_booking_reference_format:
  assumes r: "0 \<le> r" "r < 1"
    and y: "1000 \<le> year" "year \<le> 9999"
    and m: "0 \<le> month" "month \<le> 11"
    and d: "1 \<le> day" "day \<le> 31"
  shows "1000 \<le> randomInt 1000 9000 r \<and> randomInt 1000 9000 r \<le> 9999
    \<and> routeBookingReference year month day r
        = ''ZEN'' @ zeroPadded 4 (nat year) @ zeroPadded 2 (nat (month + 1))
            @ zeroPadded 2 (nat day) @ zeroPadded 4 (nat (randomInt 1000 9000 r))
    \<and> bookingReference (preSave True year month day r b)
        = ''ZEN'' @ zeroPadded 4 (nat year) @ zeroPadded 2 (nat (month + 1))
            @ zeroPadded 2 (nat day) @ zeroPadded 4 (nat (randomInt 1000 9000 r))
    \<and> length (routeBookingReference year month day r) = 15"
proof -
  from r have n: "1000 \<le> randomInt 1000 9000 r" "randomInt 1000 9000 r \<le> 9999"
    using randomInt_range [of r 9000 1000] by simp_all
  from y have ys: "toString year = zeroPadded 4 (nat year)"
    by (simp add: toString_nonneg toStringNat_4 del: zeroPadded.simps)
  from m have ms: "padStart2 (toString (month + 1)) = zeroPadded 2 (nat (month + 1))"
    by (simp add: toString_nonneg padStart2_zeroPadded del: zeroPadded.simps)
  from d have ds: "padStart2 (toString day) = zeroPadded 2 (nat day)"
    by (simp add: toString_nonneg padStart2_zeroPadded del: zeroPadded.simps)
  from n have ns: "toString (randomInt 1000 9000 r) = zeroPadded 4 (nat (randomInt 1000 9000 r))"
    by (simp add: toString_nonneg toStringNat_4 del: zeroPadded.simps)
  have ref: "generateReference ''ZEN'' year month day r
        = ''ZEN'' @ zeroPadded 4 (nat year) @ zeroPadded 2 (nat (month + 1))
            @ zeroPadded 2 (nat day) @ zeroPadded 4 (nat (randomInt 1000 9000 r))"
    by (simp add: generateReference_def dateStr_def ys ms ds ns del: zeroPadded.simps)
  have len: "length (generateReference ''ZEN'' year month day r) = 15"
    by (simp add: ref length_zeroPadded del: zeroPadded.simps)
  from n ref len show ?thesis
    by (simp add: routeBookingReference_def preSave_def del: zeroPadded.simps)
qed

theorem C9_booking_reference_witness:
  "routeBookingReference 2026 10 1 (1 / 2) = ''ZEN202611015500''
   \<and> randomInt 1000 9000 (1 / 2) = 5500"
proof -
  have h: "(0::real) \<le> 1 / 2" "(1::real) / 2 < 1" "(1000::int) \<le> 2026" "(2026::int) \<le> 9999"
    "(0::int) \<le> 10" "(10::int) \<le> 11" "(1::int) \<le> 1" "(1::int) \<le> 31"
    by simp_all
  have n: "randomInt 1000 9000 (1 / 2) = 5500" by (simp add: randomInt_def)
  from C9_booking_reference_format [OF h] n show ?thesis
    by (simp add: zeroPadded_4 zeroPadded_3 zeroPadded_2 digitChar_def)
qed


section \<open>Rescheduling: at most once\<close>

lemma stored_after_simps [simp]:
  "stored_after b (Inl e) = b" "stored_after b (Inr b') = b'"
  by (simp_all add: stored_after_def)

lemma updateStatus_count:
  "rescheduleCount (stored_after b (updateStatus caller now savedAt st reason (Some b))) = rescheduleCount b"
  by (simp add: updateStatus_def save_def cancelBooking_def split: option.splits)

lemma reschedule_count:
  "rescheduleCount b \<le> 1 \<Longrightarrow>
   rescheduleCount (stored_after b (reschedule caller now stamp savedAt nd nt (Some b))) \<le> 1"
  by (simp add: reschedule_def rescheduleBooking_def save_def)

lemma feedbackRoute_count:
  "rescheduleCount (stored_after b (feedbackRoute caller now savedAt r fb (Some b))) = rescheduleCount b"
  by (simp add: feedbackRoute_def addFeedback_def save_def)

lemma rateRoute_count:
  "rescheduleCount (stored_after b (rateRoute caller savedAt r c (Some b))) = rescheduleCount b"
  by (simp add: rateRoute_def save_def)

lemma cancelRoute_count:
  "rescheduleCount (stored_after b (cancelRoute caller savedAt (Some b))) = rescheduleCount b"
  by (simp add: cancelRoute_def save_def)

lemma checkin_count:
  "rescheduleCount (stored_after b (checkin tz caller now r t savedAt (Some b))) = rescheduleCount b"
  by (simp add: checkin_def save_def)

lemma userCheckout_count:
  "rescheduleCount (stored_after b (userCheckout caller now t savedAt (Some b))) = rescheduleCount b"
  by (simp add: userCheckout_def save_def split: option.splits)

lemma checkout_count:
  "rescheduleCount (stored_after b (checkout t savedAt otp adminId (Some b))) = rescheduleCount b"
  by (simp add: checkout_def save_def)

lemma getBooking_count:
  "rescheduleCount (stored_after_get b (getBooking caller now savedAt (Some b))) = rescheduleCount b"
  by (simp add: getBooking_def stored_after_get_def save_def split: option.splits)

lemma adminUpdateStatus_count:
  "rescheduleCount (stored_after b (adminUpdateStatus now savedAt st an reason (Some b))) = rescheduleCount b"
  by (simp add: adminUpdateStatus_def save_def cancelBooking_def markAsNoShow_def
      completeBooking_def split: option.splits)

lemma bulkUpdateOne_count:
  "rescheduleCount b \<le> 1 \<Longrightarrow>
   rescheduleCount (stored_after b (bulkUpdateOne action d now savedAt (Some b))) \<le> 1"
  by (cases action)
     (simp_all add: bulkUpdateOne_def cancelBooking_def markAsNoShow_def rescheduleBooking_def
        save_def split: option.splits)

lemma perform_rescheduleCount:
  assumes "rescheduleCount b \<le> 1"
  shows "rescheduleCount (perform q b) \<le> 1"
proof (cases q)
  case (ReqReschedule caller now stamp savedAt newDate newTime)
  then show ?thesis using reschedule_count [OF assms] by simp
next
  case (ReqBulk action d now savedAt)
  then show ?thesis using bulkUpdateOne_count [OF assms] by simp
next
  case (ReqSweep now savedAt)
  with assms show ?thesis by (simp add: noShowSet_def)
next
  case (ReqOtherWrite savedAt)
  with assms show ?thesis by (simp add: otherWrite_def)
qed (use assms in \<open>simp_all add: updateStatus_count feedbackRoute_count rateRoute_count
      cancelRoute_count checkin_count userCheckout_count checkout_count getBooking_count
      adminUpdateStatus_count\<close>)

lemma run_rescheduleCount:
  "rescheduleCount b \<le> 1 \<Longrightarrow> rescheduleCount (run qs b) \<le> 1"
proof (induction qs arbitrary: b)
  case Nil
  then show ?case by simp
next
  case (Cons q qs)
  from Cons.prems have "rescheduleCount (perform q b) \<le> 1"
    by (rule perform_rescheduleCount)
  then show ?case using Cons.IH by simp
qed


lemma reschedule_rejects_second:
  assumes "rescheduleCount b \<ge> 1"
  shows "\<exists>e. reschedule caller now stamp savedAt newDate newTime (Some b) = Inl e"
  using assms by (simp add: reschedule_def)

lemma bulk_reschedule_rejects_second:
  assumes "rescheduleCount b \<ge> 1"
  shows "\<exists>e. bulkUpdateOne BulkReschedule d now savedAt (Some b) = Inl e"
  using assms by (simp add: bulkUpdateOne_def)

text \<open>
  Claim C2, amended. The reschedule count of a booking never exceeds 1: it is 0
  in a new booking and at most 1 after any sequence of requests. A reschedule
  request on a booking whose count is already 1 or more is always rejected and
  leaves the stored booking as it is, so the appointment date and time keep their
  values. The model method rejects it with the once-only error; the handler does
  so whenever the request reaches that guard, that is when the time is well
  formed, the caller owns the booking, the new date is not before now and the
  booking is neither completed nor cancelled, and answers with the rejection of
  the first failing earlier check otherwise. The reschedule action of the admin
  bulk update is rejected as well.
\<close>

theorem C2_reschedule_at_most_once:
  "rescheduleCount (run qs (newBooking owner loc date t ref createdAt)) \<le> 1
   \<and> (rescheduleCount b \<ge> 1 \<longrightarrow>
        rescheduleBooking stamp newDate newTime b = Inl RescheduledOnlyOnce
      \<and> (\<exists>e. reschedule caller now stamp savedAt newDate newTime (Some b) = Inl e)
      \<and> stored_after b (reschedule caller now stamp savedAt newDate newTime (Some b)) = b
      \<and> (validTime newTime \<and> user b = caller \<and> now \<le> newDate
           \<and> status b \<notin> {Completed, Cancelled}
          \<longrightarrow> reschedule caller now stamp savedAt newDate newTime (Some b) = Inl RescheduledOnlyOnce)
      \<and> (\<exists>e. bulkUpdateOne BulkReschedule d stamp savedAt (Some b) = Inl e)
      \<and> stored_after b (bulkUpdateOne BulkReschedule d stamp savedAt (Some b)) = b)"
proof -
  have base: "rescheduleCount (newBooking owner loc date t ref createdAt) \<le> 1"
    by (simp add: newBooking_def)
  have inv: "rescheduleCount (run qs (newBooking owner loc date t ref createdAt)) \<le> 1"
    using base by (rule run_rescheduleCount)
  have second: "rescheduleBooking stamp newDate newTime b = Inl RescheduledOnlyOnce
      \<and> (\<exists>e. reschedule caller now stamp savedAt newDate newTime (Some b) = Inl e)
      \<and> stored_after b (reschedule caller now stamp savedAt newDate newTime (Some b)) = b
      \<and> (validTime newTime \<and> user b = caller \<and> now \<le> newDate
           \<and> status b \<notin> {Completed, Cancelled}
          \<longrightarrow> reschedule caller now stamp savedAt newDate newTime (Some b) = Inl RescheduledOnlyOnce)
      \<and> (\<exists>e. bulkUpdateOne BulkReschedule d stamp savedAt (Some b) = Inl e)
      \<and> stored_after b (bulkUpdateOne BulkReschedule d stamp savedAt (Some b)) = b"
    if c: "rescheduleCount b \<ge> 1"
  proof -
    from c have 1: "rescheduleBooking stamp newDate newTime b = Inl RescheduledOnlyOnce"
      by (simp add: rescheduleBooking_def)
    from c obtain e where 2: "reschedule caller now stamp savedAt newDate newTime (Some b) = Inl e"
      using reschedule_rejects_second by blast
    from c have 3: "validTime newTime \<and> user b = caller \<and> now \<le> newDate
           \<and> status b \<notin> {Completed, Cancelled}
          \<longrightarrow> reschedule caller now stamp savedAt newDate newTime (Some b) = Inl RescheduledOnlyOnce"
      by (simp add: reschedule_def)
    from c obtain e' where 4: "bulkUpdateOne BulkReschedule d stamp savedAt (Some b) = Inl e'"
      using bulk_reschedule_rejects_second by blast
    from 1 2 3 4 show ?thesis by simp
  qed
  from inv second show ?thesis by blast
qed

theorem C2_reschedule_at_most_once_witness:
  "rescheduleCount sampleRescheduled = 1
   \<and> rescheduleCount
        (run [ReqReschedule ''u1'' 1793491200000 1793491200005 1793491200009
                1894752000000 ''14:00'',
              ReqReschedule ''u1'' 1793491300000 1793491300005 1793491300009
                1894838400000 ''15:00'']
           sampleBooking) \<le> 1
   \<and> reschedule ''u1'' 1793491300000 1793491300005 1793491300009 1894838400000 ''15:00''
        (Some sampleRescheduled) = Inl RescheduledOnlyOnce
   \<and> appointmentDate
        (stored_after sampleRescheduled
           (reschedule ''u1'' 1793491300000 1793491300005 1793491300009 1894838400000 ''15:00''
              (Some sampleRescheduled))) = 1894752000000
   \<and> appointmentTime
        (stored_after sampleRescheduled
           (reschedule ''u1'' 1793491300000 1793491300005 1793491300009 1894838400000 ''15:00''
              (Some sampleRescheduled))) = ''14:00''"
proof -
  have c: "rescheduleCount sampleRescheduled = 1"
    by (simp add: sampleRescheduled_def sampleBooking_def newBooking_def reschedule_def
        rescheduleBooking_def save_def statusEnum_def isDigit_def)
  have s: "user sampleRescheduled = ''u1''" "status sampleRescheduled = Rescheduled"
    "appointmentDate sampleRescheduled = 1894752000000"
    "appointmentTime sampleRescheduled = ''14:00''"
    by (simp_all add: sampleRescheduled_def sampleBooking_def newBooking_def reschedule_def
        rescheduleBooking_def save_def statusEnum_def isDigit_def)
  have v: "validTime ''15:00''" by (simp add: isDigit_def)
  from C2_reschedule_at_most_once
         [of "[ReqReschedule ''u1'' 1793491200000 1793491200005 1793491200009
                1894752000000 ''14:00'',
               ReqReschedule ''u1'' 1793491300000 1793491300005 1793491300009
                1894838400000 ''15:00'']"
             "''u1''" "''Kokapet''" 1894681800000 "''10:00''" "''ZEN202611015500''"
             1793491100000
             sampleRescheduled 1793491300005 1894838400000 "''15:00''" "''u1''" 1793491300000
             1793491300009]
       c s v
  show ?thesis by (simp add: sampleBooking_def)
qed

text \<open>
  The claim as stated, with the once-only rejection in every case, fails on a
  booking that has been rescheduled once and then cancelled: the handler checks
  the status first and answers that completed or cancelled bookings cannot be
  rescheduled.
\<close>

theorem C2_once_only_rejection_counterexample:
  "rescheduleCount (sampleRescheduled\<lparr>status := Cancelled\<rparr>) = 1
   \<and> reschedule ''u1'' 1793491300000 1793491300005 1793491300009 1894838400000 ''15:00''
        (Some (sampleRescheduled\<lparr>status := Cancelled\<rparr>))
       = Inl CannotRescheduleCompletedOrCancelled"
  by (simp add: sampleRescheduled_def sampleBooking_def newBooking_def reschedule_def
      rescheduleBooking_def save_def statusEnum_def isDigit_def)

section \<open>The effect of a reschedule\<close>

text \<open>
  Claim C8, amended. A reschedule request succeeds exactly when the time is well
  formed, the caller owns the booking, the new date is not before now, the status
  is neither completed nor cancelled and the reschedule count is below 1. It then
  stores the prior date and time in \<open>rescheduledFrom\<close>, overwrites
  \<open>appointmentDate\<close> and \<open>appointmentTime\<close> with the new values, adds one to
  \<open>rescheduleCount\<close>, stamps \<open>rescheduledAt\<close> and leaves the booking in status
  \<^verbatim>\<open>'rescheduled'\<close>, not \<^verbatim>\<open>'confirmed'\<close>; the write sets \<open>updatedAt\<close> as
  every write does.
\<close>

theorem C8_reschedule_effect:
  "reschedule caller now stamp savedAt newDate newTime (Some b) = Inr b' \<longleftrightarrow>
     validTime newTime \<and> user b = caller \<and> now \<le> newDate
     \<and> status b \<notin> {Completed, Cancelled} \<and> rescheduleCount b < 1
     \<and> b' = b\<lparr>rescheduledFrom := Some (appointmentDate b, appointmentTime b),
               appointmentDate := newDate,
               appointmentTime := newTime,
               status := Rescheduled,
               rescheduledAt := Some stamp,
               rescheduleCount := rescheduleCount b + 1,
               updatedAt := savedAt\<rparr>"
proof -
  have changed: "b\<lparr>rescheduledFrom := Some (appointmentDate b, appointmentTime b),
               appointmentDate := newDate,
               appointmentTime := newTime,
               status := Rescheduled,
               rescheduledAt := Some stamp,
               rescheduleCount := rescheduleCount b + 1\<rparr> \<noteq> b"
  proof
    assume "b\<lparr>rescheduledFrom := Some (appointmentDate b, appointmentTime b),
               appointmentDate := newDate,
               appointmentTime := newTime,
               status := Rescheduled,
               rescheduledAt := Some stamp,
               rescheduleCount := rescheduleCount b + 1\<rparr> = b"
    then have "rescheduleCount (b\<lparr>rescheduledFrom := Some (appointmentDate b, appointmentTime b),
               appointmentDate := newDate,
               appointmentTime := newTime,
               status := Rescheduled,
               rescheduledAt := Some stamp,
               rescheduleCount := rescheduleCount b + 1\<rparr>) = rescheduleCount b"
      by (rule arg_cong)
    then show False by simp
  qed
  then show ?thesis
    by (auto simp: reschedule_def rescheduleBooking_def save_def statusEnum_def)
qed

theorem C8_reschedule_effect_witness:
  "reschedule ''u1'' 1793491200000 1793491200005 1793491200009 1894752000000 ''14:00''
       (Some sampleBooking)
     = Inr (sampleBooking\<lparr>rescheduledFrom := Some (1894681800000, ''10:00''),
               appointmentDate := 1894752000000,
               appointmentTime := ''14:00'',
               status := Rescheduled,
               rescheduledAt := Some 1793491200005,
               rescheduleCount := 1,
               updatedAt := 1793491200009\<rparr>)"
  using C8_reschedule_effect
          [of "''u1''" 1793491200000 1793491200005 1793491200009 1894752000000 "''14:00''"
              sampleBooking
              "sampleBooking\<lparr>rescheduledFrom := Some (1894681800000, ''10:00''),
               appointmentDate := 1894752000000,
               appointmentTime := ''14:00'',
               status := Rescheduled,
               rescheduledAt := Some 1793491200005,
               rescheduleCount := 1,
               updatedAt := 1793491200009\<rparr>"]
  by (simp add: sampleBooking_def newBooking_def isDigit_def)

text \<open>
  The claim as stated, with the booking left in status confirmed, fails on the
  sample booking: it is confirmed, has never been rescheduled, and the successful
  reschedule leaves it in status rescheduled.
\<close>

theorem C8_status_confirmed_counterexample:
  "status sampleBooking = Confirmed \<and> rescheduleCount sampleBooking < 1
   \<and> map_sum id status
        (reschedule ''u1'' 1793491200000 1793491200005 1793491200009 1894752000000 ''14:00''
           (Some sampleBooking)) = Inr Rescheduled"
  by (simp add: sampleBooking_def newBooking_def reschedule_def rescheduleBooking_def
      save_def statusEnum_def isDigit_def)

section \<open>Terminal states\<close>

text \<open>The definitions that evaluate the appointment instant of a concrete booking.\<close>

lemmas time_defs =
  appointmentDateTime_def parseTimeOfDay_def twoDigits_def parseSeconds_def parseFraction_def
  parseZone_def millisOfFraction_def digitsValue_def isDigit_def digitVal_def msPerDay_def

lemma terminal_cancel:
  "status b \<in> {Completed, Cancelled, NoShow} \<Longrightarrow> perform (ReqCancel caller savedAt) b = b"
  by (auto simp: cancelRoute_def)

lemma terminal_sweep:
  "status b \<in> {Completed, Cancelled, NoShow} \<Longrightarrow> perform (ReqSweep now savedAt) b = b"
  by (auto simp: noShowFilter_def)

lemma terminal_bulk_reschedule:
  "status b \<in> {Completed, Cancelled, NoShow} \<Longrightarrow> perform (ReqBulk BulkReschedule d now savedAt) b = b"
  by (auto simp: bulkUpdateOne_def)

lemma terminal_reschedule:
  "status b \<in> {Completed, Cancelled} \<Longrightarrow>
   perform (ReqReschedule caller now later savedAt newDate newTime) b = b"
  by (auto simp: reschedule_def)

lemma feedback_status: "status (perform (ReqFeedback caller now savedAt r fb) b) = status b"
  by (simp add: feedbackRoute_def addFeedback_def save_def)

lemma rate_status: "status (perform (ReqRate caller savedAt r comment) b) = status b"
  by (simp add: rateRoute_def save_def)

lemma get_status: "status (perform (ReqGet caller now savedAt) b) = status b"
  by (simp add: getBooking_def stored_after_get_def save_def split: option.splits)

lemma feedback_only_completed:
  "status b \<noteq> Completed \<Longrightarrow> perform (ReqFeedback caller now savedAt r fb) b = b"
  by (simp add: feedbackRoute_def)

lemma rate_only_completed:
  "status b \<noteq> Completed \<Longrightarrow> perform (ReqRate caller savedAt r comment) b = b"
  by (simp add: rateRoute_def)

text \<open>
  Claim C3, amended. On a booking whose status is completed, cancelled or no-show,
  the user's cancel request, the no-show sweep and the admin bulk reschedule leave
  the stored booking as it is, and so does the reschedule request when the status
  is completed or cancelled; rating, feedback and the read by id never change the
  status, and rating and feedback are accepted on completed bookings only.
\<close>

theorem C3_terminal_status_guarded:
  assumes "status b \<in> {Completed, Cancelled, NoShow}"
  shows "perform (ReqCancel caller savedAt) b = b
     \<and> perform (ReqSweep now savedAt) b = b
     \<and> perform (ReqBulk BulkReschedule d now savedAt) b = b
     \<and> (status b \<noteq> NoShow \<longrightarrow> perform (ReqReschedule caller now later savedAt newDate newTime) b = b)
     \<and> status (perform (ReqFeedback caller now savedAt r fb) b) = status b
     \<and> status (perform (ReqRate caller savedAt r comment) b) = status b
     \<and> status (perform (ReqGet caller now savedAt) b) = status b
     \<and> (status b \<noteq> Completed \<longrightarrow>
          perform (ReqFeedback caller now savedAt r fb) b = b
        \<and> perform (ReqRate caller savedAt r comment) b = b)"
proof -
  from assms have "status b \<noteq> NoShow \<longrightarrow> status b \<in> {Completed, Cancelled}" by auto
  then have "status b \<noteq> NoShow \<longrightarrow> perform (ReqReschedule caller now later savedAt newDate newTime) b = b"
    using terminal_reschedule by blast
  then show ?thesis
    using terminal_cancel [OF assms] terminal_sweep [OF assms]
      terminal_bulk_reschedule [OF assms] feedback_status rate_status get_status
      feedback_only_completed rate_only_completed
    by presburger
qed

theorem C3_terminal_status_guarded_witness:
  "status (sampleBooking\<lparr>status := Cancelled\<rparr>) \<in> {Completed, Cancelled, NoShow}
   \<and> perform (ReqCancel ''u1'' 1793491200009) (sampleBooking\<lparr>status := Cancelled\<rparr>)
       = sampleBooking\<lparr>status := Cancelled\<rparr>
   \<and> perform (ReqReschedule ''u1'' 1793491200000 1793491200005 1793491200009
              1894752000000 ''14:00'')
         (sampleBooking\<lparr>status := Cancelled\<rparr>)
       = sampleBooking\<lparr>status := Cancelled\<rparr>
   \<and> perform (ReqFeedback ''u1'' 1793491200000 1793491200009 5 None) (sampleBooking\<lparr>status := Cancelled\<rparr>)
       = sampleBooking\<lparr>status := Cancelled\<rparr>"
proof -
  have h: "status (sampleBooking\<lparr>status := Cancelled\<rparr>) \<in> {Completed, Cancelled, NoShow}"
    by simp
  from C3_terminal_status_guarded
         [where b = "sampleBooking\<lparr>status := Cancelled\<rparr>" and caller = "''u1''"
            and now = 1793491200000 and later = 1793491200005 and savedAt = 1793491200009
            and newDate = 1894752000000
            and newTime = "''14:00''" and r = 5 and fb = None and comment = None
            and d = "\<lparr>dataCancellationReason = None, dataAppointmentDate = None,
                       dataAppointmentTime = None\<rparr>", OF h]
  show ?thesis by simp
qed

text \<open>
  The claim as stated fails: the status update request of the owner assigns the
  requested status whatever the current one is, so a cancelled booking becomes
  confirmed again. The admin status update, check-in and the reschedule of a
  no-show booking change a terminal status in the same way.
\<close>

theorem C3_terminal_status_counterexample:
  "status (sampleBooking\<lparr>status := Cancelled\<rparr>) = Cancelled
   \<and> status (perform (ReqUpdateStatus ''u1'' 1793491200000 1793491200009 Confirmed None)
               (sampleBooking\<lparr>status := Cancelled\<rparr>)) = Confirmed"
  by (simp add: sampleBooking_def newBooking_def updateStatus_def optLength_def save_def
      statusEnum_def)


lemma admin_status_changes_terminal:
  "status (perform (ReqAdminStatus 1793491200000 1793491200009 Confirmed None None)
             (sampleBooking\<lparr>status := NoShow\<rparr>)) = Confirmed"
  by (simp add: sampleBooking_def newBooking_def adminUpdateStatus_def optLength_def
      save_def statusEnum_def)

lemma checkin_changes_terminal:
  "status (perform (ReqCheckin 19800000 ''u1'' 1894680900000 (1 / 2) 1894680900007
              1894680900009)
             (sampleBooking\<lparr>status := Cancelled\<rparr>)) = InProgress"
  by (simp add: sampleBooking_def newBooking_def checkin_def outsideCheckInWindow_def
      save_def statusEnum_def time_defs)

lemma reschedule_changes_no_show:
  "status (perform (ReqReschedule ''u1'' 1793491200000 1793491200005 1793491200009
              1894752000000 ''14:00'')
             (sampleBooking\<lparr>status := NoShow\<rparr>)) = Rescheduled"
  by (simp add: sampleBooking_def newBooking_def reschedule_def rescheduleBooking_def
      save_def statusEnum_def isDigit_def)

section \<open>Check-in\<close>

text \<open>
  A time with a two-digit hour that the route validators accept always parses, as
  a local time: the appointment instant of the handler is then the UTC calendar
  day of \<open>appointmentDate\<close> at that hour and minute of the server's zone. A
  time with a one-digit hour that the validators accept never parses.
\<close>

lemma digitVal_le_9: "isDigit c \<Longrightarrow> digitVal c \<le> 9"
  by (auto simp: isDigit_def digitVal_def)

lemma digitVal_01: "c \<in> set ''01'' \<Longrightarrow> isDigit c \<and> digitVal c \<le> 1"
  by (auto simp: isDigit_def digitVal_def)

lemma digitVal_0123: "c \<in> set ''0123'' \<Longrightarrow> isDigit c \<and> digitVal c \<le> 3"
  by (auto simp: isDigit_def digitVal_def)

lemma digitVal_012345: "c \<in> set ''012345'' \<Longrightarrow> isDigit c \<and> digitVal c \<le> 5"
  by (auto simp: isDigit_def digitVal_def)

lemma digitVal_2: "isDigit CHR ''2'' \<and> digitVal CHR ''2'' = 2"
  by (simp add: isDigit_def digitVal_def)

lemma colon_no_digit: "\<not> isDigit CHR '':''"
  by (simp add: isDigit_def)

lemma twoDigits_colon:
  "isDigit a \<Longrightarrow> isDigit b \<Longrightarrow>
   twoDigits (a # b # CHR '':'' # rest) = Some (10 * digitVal a + digitVal b, CHR '':'' # rest)"
  by (simp add: twoDigits_def digitsValue_def colon_no_digit)

lemma twoDigits_end:
  "isDigit a \<Longrightarrow> isDigit b \<Longrightarrow> twoDigits [a, b] = Some (10 * digitVal a + digitVal b, [])"
  by (simp add: twoDigits_def digitsValue_def)

lemma twoDigits_one_digit: "isDigit a \<Longrightarrow> twoDigits (a # CHR '':'' # rest) = None"
  by (simp add: twoDigits_def colon_no_digit)

lemma parseTimeOfDay_two_digit:
  assumes "validTime [h1, h2, c, m1, m2]"
  shows "parseTimeOfDay [h1, h2, c, m1, m2]
     = Some (int ((10 * digitVal h1 + digitVal h2) * 60 + (10 * digitVal m1 + digitVal m2)) * 60000,
             LocalTime)"
proof -
  from assms have c: "c = CHR '':''" and m1: "m1 \<in> set ''012345''" and m2: "isDigit m2"
    and h: "(h1 \<in> set ''01'' \<and> isDigit h2) \<or> (h1 = CHR ''2'' \<and> h2 \<in> set ''0123'')"
    by simp_all
  from m1 m2 have m: "isDigit m1" "10 * digitVal m1 + digitVal m2 \<le> 59"
    using digitVal_012345 [of m1] digitVal_le_9 [of m2] by simp_all
  from h have hh: "isDigit h1 \<and> isDigit h2 \<and> 10 * digitVal h1 + digitVal h2 \<le> 23"
  proof
    assume "h1 \<in> set ''01'' \<and> isDigit h2"
    then show ?thesis using digitVal_01 [of h1] digitVal_le_9 [of h2] by simp
  next
    assume "h1 = CHR ''2'' \<and> h2 \<in> set ''0123''"
    then show ?thesis using digitVal_2 digitVal_0123 [of h2] by simp
  qed
  from hh have t1: "twoDigits [h1, h2, CHR '':'', m1, m2]
      = Some (10 * digitVal h1 + digitVal h2, [CHR '':'', m1, m2])"
    by (simp add: twoDigits_colon)
  from m m2 have t2: "twoDigits [m1, m2] = Some (10 * digitVal m1 + digitVal m2, [])"
    by (simp add: twoDigits_end)
  from c t1 t2 m hh show ?thesis
    by (simp add: parseTimeOfDay_def parseSeconds_def parseZone_def millisOfFraction_def
        digitsValue_def digitVal_def)
qed

lemma parseTimeOfDay_one_digit:
  assumes "validTime [h, c, m1, m2]"
  shows "parseTimeOfDay [h, c, m1, m2] = None"
proof -
  from assms have "c = CHR '':''" "isDigit h" by simp_all
  then show ?thesis by (simp add: parseTimeOfDay_def twoDigits_one_digit)
qed

lemma appointmentDateTime_two_digit:
  assumes "appointmentTime b = [h1, h2, c, m1, m2]" "validTime (appointmentTime b)"
  shows "appointmentDateTime tz b
     = Some ((appointmentDate b div msPerDay) * msPerDay
             + int ((10 * digitVal h1 + digitVal h2) * 60 + (10 * digitVal m1 + digitVal m2))
               * 60000
             - tz)"
  using assms parseTimeOfDay_two_digit [of h1 h2 c m1 m2]
  by (simp add: appointmentDateTime_def)

lemma appointmentDateTime_one_digit:
  assumes "appointmentTime b = [h, c, m1, m2]" "validTime (appointmentTime b)"
  shows "appointmentDateTime tz b = None"
  using assms parseTimeOfDay_one_digit [of h c m1 m2]
  by (simp add: appointmentDateTime_def)

lemma generateOTP_digits:
  assumes "0 \<le> r" "r < 1"
  shows "100000 \<le> randomInt 100000 900000 r \<and> randomInt 100000 900000 r \<le> 999999
     \<and> generateOTP r = zeroPadded 6 (nat (randomInt 100000 900000 r))"
proof -
  from assms have n: "100000 \<le> randomInt 100000 900000 r" "randomInt 100000 900000 r \<le> 999999"
    using randomInt_range [of r 900000 100000] by simp_all
  then have "toString (randomInt 100000 900000 r) = zeroPadded 6 (nat (randomInt 100000 900000 r))"
    by (simp add: toString_nonneg toStringNat_6 del: zeroPadded.simps)
  with n show ?thesis by (simp add: generateOTP_def)
qed

text \<open>The document that a successful check-in stores.\<close>

lemma checkin_write:
  assumes "\<not> checkedIn b"
  shows "save savedAt b
           (b\<lparr>checkedIn := True, checkInTime := Some t, checkoutOTP := Some otp,
              status := InProgress, checkOutEligibleTime := Some e, canCheckOut := False\<rparr>)
     = Inr (b\<lparr>checkedIn := True, checkInTime := Some t, checkoutOTP := Some otp,
               status := InProgress, checkOutEligibleTime := Some e, canCheckOut := False,
               updatedAt := savedAt\<rparr>)"
proof -
  have "b\<lparr>checkedIn := True, checkInTime := Some t, checkoutOTP := Some otp,
          status := InProgress, checkOutEligibleTime := Some e, canCheckOut := False\<rparr> \<noteq> b"
  proof
    assume "b\<lparr>checkedIn := True, checkInTime := Some t, checkoutOTP := Some otp,
          status := InProgress, checkOutEligibleTime := Some e, canCheckOut := False\<rparr> = b"
    then have "checkedIn (b\<lparr>checkedIn := True, checkInTime := Some t, checkoutOTP := Some otp,
          status := InProgress, checkOutEligibleTime := Some e, canCheckOut := False\<rparr>)
        = checkedIn b"
      by (rule arg_cong)
    with assms show False by simp
  qed
  then show ?thesis by (simp add: save_def statusEnum_def)
qed

lemma checkin_in_window:
  assumes "\<not> checkedIn b" "user b = caller" "appointmentDateTime tz b = Some adt"
    and "adt - minutes 15 \<le> now" "now \<le> adt + minutes 60"
  shows "checkin tz caller now r t savedAt (Some b)
     = Inr (b\<lparr>checkedIn := True, checkInTime := Some t, checkoutOTP := Some (generateOTP r),
               status := InProgress, checkOutEligibleTime := Some (t + minutes 20),
               canCheckOut := False, updatedAt := savedAt\<rparr>)"
  using assms checkin_write [OF assms(1), where savedAt = savedAt and t = t and otp = "generateOTP r"
          and e = "t + minutes 20"]
  by (simp add: checkin_def outsideCheckInWindow_def minutes_def)

lemma checkin_outside_window:
  assumes "user b = caller" "appointmentDateTime tz b = Some adt"
    and "now < adt - minutes 15 \<or> adt + minutes 60 < now"
  shows "checkin tz caller now r t savedAt (Some b) = Inl OutsideCheckInWindow"
  using assms by (auto simp: checkin_def outsideCheckInWindow_def minutes_def)

text \<open>
  With no appointment instant, that is with a time that the runtime does not
  parse, the request of the owner checks a booking in at every clock reading.
\<close>

lemma checkin_without_instant:
  assumes "\<not> checkedIn b" "user b = caller" "appointmentDateTime tz b = None"
  shows "checkin tz caller now r t savedAt (Some b)
     = Inr (b\<lparr>checkedIn := True, checkInTime := Some t, checkoutOTP := Some (generateOTP r),
               status := InProgress, checkOutEligibleTime := Some (t + minutes 20),
               canCheckOut := False, updatedAt := savedAt\<rparr>)"
  using assms checkin_write [OF assms(1), where savedAt = savedAt and t = t and otp = "generateOTP r"
          and e = "t + minutes 20"]
  by (simp add: checkin_def outsideCheckInWindow_def minutes_def)

text \<open>
  The window that the handler implements. For a booking that is not yet checked
  in and whose time parses, a check-in request of its owner, with \<open>adt\<close> the
  instant that the handler computes, succeeds exactly when the clock reading
  \<open>now\<close> lies in the closed interval from \<open>adt - 15 min\<close> to
  \<open>adt + 60 min\<close>, and is rejected as outside the window otherwise. On success
  the stored booking is in progress and checked in at the reading \<open>t\<close>,
  \<open>checkoutOTP\<close> holds the six digits of a number between 100000 and 999999,
  \<open>checkOutEligibleTime\<close> is \<open>t + 20 min\<close> and \<open>canCheckOut\<close> is false.
  The handler does not look at the status.
\<close>

lemma checkin_window_of_handler:
  assumes nci: "\<not> checkedIn b" and own: "user b = caller"
    and adt: "appointmentDateTime tz b = Some adt"
    and r: "0 \<le> r" "r < 1"
  shows "((\<exists>b'. checkin tz caller now r t savedAt (Some b) = Inr b')
            \<longleftrightarrow> adt - minutes 15 \<le> now \<and> now \<le> adt + minutes 60)
     \<and> (adt - minutes 15 \<le> now \<and> now \<le> adt + minutes 60 \<longrightarrow>
          checkin tz caller now r t savedAt (Some b)
            = Inr (b\<lparr>checkedIn := True,
                      checkInTime := Some t,
                      checkoutOTP := Some (zeroPadded 6 (nat (randomInt 100000 900000 r))),
                      status := InProgress,
                      checkOutEligibleTime := Some (t + minutes 20),
                      canCheckOut := False,
                      updatedAt := savedAt\<rparr>))
     \<and> (now < adt - minutes 15 \<or> adt + minutes 60 < now \<longrightarrow>
          checkin tz caller now r t savedAt (Some b) = Inl OutsideCheckInWindow)
     \<and> (\<exists>b'. checkin tz caller (adt - minutes 15) r t savedAt (Some b) = Inr b')
     \<and> checkin tz caller (adt - minutes 16) r t savedAt (Some b) = Inl OutsideCheckInWindow
     \<and> 100000 \<le> randomInt 100000 900000 r \<and> randomInt 100000 900000 r \<le> 999999"
proof -
  note otp = generateOTP_digits [OF r]
  have inside: "checkin tz caller now' r t savedAt (Some b)
            = Inr (b\<lparr>checkedIn := True,
                      checkInTime := Some t,
                      checkoutOTP := Some (zeroPadded 6 (nat (randomInt 100000 900000 r))),
                      status := InProgress,
                      checkOutEligibleTime := Some (t + minutes 20),
                      canCheckOut := False,
                      updatedAt := savedAt\<rparr>)"
    if "adt - minutes 15 \<le> now'" "now' \<le> adt + minutes 60" for now'
    using checkin_in_window [OF nci own adt that] otp by simp
  have outside: "checkin tz caller now' r t savedAt (Some b) = Inl OutsideCheckInWindow"
    if "now' < adt - minutes 15 \<or> adt + minutes 60 < now'" for now'
    using checkin_outside_window [OF own adt that] .
  have iff: "(\<exists>b'. checkin tz caller now r t savedAt (Some b) = Inr b')
            \<longleftrightarrow> adt - minutes 15 \<le> now \<and> now \<le> adt + minutes 60"
  proof (cases "adt - minutes 15 \<le> now \<and> now \<le> adt + minutes 60")
    case True
    then show ?thesis using inside [of now] by simp
  next
    case False
    then have "now < adt - minutes 15 \<or> adt + minutes 60 < now" by auto
    from outside [OF this] False show ?thesis by simp
  qed
  have b15: "\<exists>b'. checkin tz caller (adt - minutes 15) r t savedAt (Some b) = Inr b'"
    using inside [of "adt - minutes 15"] by (simp add: minutes_def)
  have b16: "checkin tz caller (adt - minutes 16) r t savedAt (Some b) = Inl OutsideCheckInWindow"
    using outside [of "adt - minutes 16"] by (simp add: minutes_def)
  from iff inside [of now] outside [of now] b15 b16 otp show ?thesis by blast
qed

text \<open>
  With a time of two digits for the hour, the instant of the window is the UTC
  calendar day of \<open>appointmentDate\<close> at that hour and minute of the server's
  zone: this is the window that the handler keeps to, whatever the day of the
  appointment in the clinic's zone is.
\<close>

lemma checkin_window_two_digit_time:
  assumes nci: "\<not> checkedIn b" and own: "user b = caller"
    and time: "appointmentTime b = [h1, h2, c, m1, m2]" "validTime (appointmentTime b)"
  shows "(\<exists>b'. checkin tz caller now r t savedAt (Some b) = Inr b')
     \<longleftrightarrow> (appointmentDate b div msPerDay) * msPerDay
           + int ((10 * digitVal h1 + digitVal h2) * 60 + (10 * digitVal m1 + digitVal m2)) * 60000
           - tz - minutes 15 \<le> now
         \<and> now \<le> (appointmentDate b div msPerDay) * msPerDay
           + int ((10 * digitVal h1 + digitVal h2) * 60 + (10 * digitVal m1 + digitVal m2)) * 60000
           - tz + minutes 60"
proof -
  define adt where "adt = (appointmentDate b div msPerDay) * msPerDay
           + int ((10 * digitVal h1 + digitVal h2) * 60 + (10 * digitVal m1 + digitVal m2)) * 60000
           - tz"
  have a: "appointmentDateTime tz b = Some adt"
    unfolding adt_def using time by (rule appointmentDateTime_two_digit)
  have "(\<exists>b'. checkin tz caller now r t savedAt (Some b) = Inr b')
     \<longleftrightarrow> adt - minutes 15 \<le> now \<and> now \<le> adt + minutes 60"
  proof (cases "adt - minutes 15 \<le> now \<and> now \<le> adt + minutes 60")
    case True
    then show ?thesis using checkin_in_window [OF nci own a, of now r t savedAt] by simp
  next
    case False
    then have "now < adt - minutes 15 \<or> adt + minutes 60 < now" by auto
    from checkin_outside_window [OF own a this, of r t savedAt] False show ?thesis by simp
  qed
  then show ?thesis unfolding adt_def .
qed

text \<open>
  On the sample booking, whose stored date and time agree on the day in UTC, the
  window of the handler is the window around the appointment: the check-in 15
  minutes before 10:00 succeeds, the one 16 minutes before is rejected.
\<close>

lemma checkin_window_sample:
  "appointmentDateTime 19800000 sampleBooking = Some (appointmentDate sampleBooking)
   \<and> checkin 19800000 ''u1'' 1894680900000 (1 / 2) 1894680900007 1894680900009
         (Some sampleBooking)
       = Inr (sampleBooking\<lparr>checkedIn := True,
                      checkInTime := Some 1894680900007,
                      checkoutOTP := Some ''550000'',
                      status := InProgress,
                      checkOutEligibleTime := Some 1894682100007,
                      canCheckOut := False,
                      updatedAt := 1894680900009\<rparr>)
   \<and> checkin 19800000 ''u1'' 1894680840000 (1 / 2) 1894680840007 1894680840009
         (Some sampleBooking)
       = Inl OutsideCheckInWindow"
proof -
  have h: "\<not> checkedIn sampleBooking" "user sampleBooking = ''u1''"
    "appointmentDateTime 19800000 sampleBooking = Some 1894681800000"
    "(0::real) \<le> 1 / 2" "(1::real) / 2 < 1"
    by (simp_all add: sampleBooking_def newBooking_def time_defs)
  have d: "appointmentDate sampleBooking = 1894681800000"
    by (simp add: sampleBooking_def newBooking_def)
  have n: "randomInt 100000 900000 (1 / 2) = 550000" by (simp add: randomInt_def)
  from checkin_window_of_handler [OF h, of 1894680900000 1894680900007 1894680900009]
       checkin_window_of_handler [OF h, of 1894680840000 1894680840007 1894680840009] h(3) d n
  show ?thesis
    by (simp add: minutes_def zeroPadded_6 zeroPadded_5 zeroPadded_4 zeroPadded_3 zeroPadded_2
        digitChar_def)
qed

text \<open>
  Claim C6. The handler does not keep to the window of the claim, which its own
  comment and rejection message state (15 minutes before to 1 hour after the
  appointment time). Two bookings made through the POST handler on a server in
  the clinic's zone, both confirmed and not checked in, show it.

  The first is for 9:30, written \<^verbatim>\<open>9:30\<close>, which the validator of the routes
  admits. The handler's \<^verbatim>\<open>Date\<close> for it is invalid, both comparisons of the
  window test are false, and the check-in of 2026-11-01, more than three years
  before the appointment, succeeds.

  The second is for 03:00 on 2030-01-15. Its stored \<open>appointmentDate\<close> is that
  instant, which falls on 2030-01-14 in UTC; the handler joins that UTC date with
  the time read as local time and gets an instant 24 hours before the
  appointment. The check-in at the appointment time itself is rejected as outside
  the window, and the check-in 24 hours before the appointment succeeds.
\<close>

theorem C6_checkin_accepted_outside_window:
  "validTime (appointmentTime sampleOneDigitHour)
   \<and> status sampleOneDigitHour = Confirmed \<and> \<not> checkedIn sampleOneDigitHour
   \<and> appointmentDate sampleOneDigitHour = 1894680000000
   \<and> appointmentDateTime 19800000 sampleOneDigitHour = None
   \<and> checkin 19800000 ''u1'' 1793491200000 (1 / 2) 1793491200007 1793491200009
         (Some sampleOneDigitHour)
       = Inr (sampleOneDigitHour\<lparr>checkedIn := True,
                      checkInTime := Some 1793491200007,
                      checkoutOTP := Some ''550000'',
                      status := InProgress,
                      checkOutEligibleTime := Some 1793492400007,
                      canCheckOut := False,
                      updatedAt := 1793491200009\<rparr>)
   \<and> validTime (appointmentTime sampleEarlyMorning)
   \<and> status sampleEarlyMorning = Confirmed \<and> \<not> checkedIn sampleEarlyMorning
   \<and> appointmentDate sampleEarlyMorning = 1894656600000
   \<and> appointmentDateTime 19800000 sampleEarlyMorning = Some (1894656600000 - 86400000)
   \<and> checkin 19800000 ''u1'' 1894656600000 (1 / 2) 1894656600007 1894656600009
         (Some sampleEarlyMorning)
       = Inl OutsideCheckInWindow
   \<and> checkin 19800000 ''u1'' (1894656600000 - 86400000) (1 / 2) 1894570200007 1894570200009
         (Some sampleEarlyMorning)
       = Inr (sampleEarlyMorning\<lparr>checkedIn := True,
                      checkInTime := Some 1894570200007,
                      checkoutOTP := Some ''550000'',
                      status := InProgress,
                      checkOutEligibleTime := Some 1894571400007,
                      canCheckOut := False,
                      updatedAt := 1894570200009\<rparr>)"
proof -
  have n: "randomInt 100000 900000 (1 / 2) = 550000" by (simp add: randomInt_def)
  have otp: "generateOTP (1 / 2) = ''550000''"
    using generateOTP_digits [of "1 / 2"] n
    by (simp add: zeroPadded_6 zeroPadded_5 zeroPadded_4 zeroPadded_3 zeroPadded_2
        digitChar_def)
  have one: "validTime (appointmentTime sampleOneDigitHour)"
    "status sampleOneDigitHour = Confirmed" "\<not> checkedIn sampleOneDigitHour"
    "appointmentDate sampleOneDigitHour = 1894680000000"
    "user sampleOneDigitHour = ''u1''"
    "appointmentDateTime 19800000 sampleOneDigitHour = None"
    by (simp_all add: sampleOneDigitHour_def newBooking_def time_defs)
  have early: "validTime (appointmentTime sampleEarlyMorning)"
    "status sampleEarlyMorning = Confirmed" "\<not> checkedIn sampleEarlyMorning"
    "appointmentDate sampleEarlyMorning = 1894656600000"
    "user sampleEarlyMorning = ''u1''"
    "appointmentDateTime 19800000 sampleEarlyMorning = Some 1894570200000"
    by (simp_all add: sampleEarlyMorning_def newBooking_def time_defs)
  have c1: "checkin 19800000 ''u1'' 1793491200000 (1 / 2) 1793491200007 1793491200009
         (Some sampleOneDigitHour)
       = Inr (sampleOneDigitHour\<lparr>checkedIn := True,
                      checkInTime := Some 1793491200007,
                      checkoutOTP := Some ''550000'',
                      status := InProgress,
                      checkOutEligibleTime := Some 1793492400007,
                      canCheckOut := False,
                      updatedAt := 1793491200009\<rparr>)"
    using checkin_without_instant [OF one(3) one(5) one(6), of 1793491200000 "1 / 2"
            1793491200007 1793491200009] otp
    by (simp add: minutes_def)
  have c2: "checkin 19800000 ''u1'' 1894656600000 (1 / 2) 1894656600007 1894656600009
         (Some sampleEarlyMorning) = Inl OutsideCheckInWindow"
    using checkin_outside_window [OF early(5) early(6), of 1894656600000 "1 / 2"
            1894656600007 1894656600009]
    by (simp add: minutes_def)
  have c3: "checkin 19800000 ''u1'' 1894570200000 (1 / 2) 1894570200007 1894570200009
         (Some sampleEarlyMorning)
       = Inr (sampleEarlyMorning\<lparr>checkedIn := True,
                      checkInTime := Some 1894570200007,
                      checkoutOTP := Some ''550000'',
                      status := InProgress,
                      checkOutEligibleTime := Some 1894571400007,
                      canCheckOut := False,
                      updatedAt := 1894570200009\<rparr>)"
    using checkin_in_window [OF early(3) early(5) early(6), of 1894570200000 "1 / 2"
            1894570200007 1894570200009] otp
    by (simp add: minutes_def)
  from one early c1 c2 c3 show ?thesis by simp
qed

section \<open>Self-checkout\<close>

text \<open>A document that differs from the loaded one in some path is written.\<close>

lemma save_changed:
  assumes "status b' \<in> set statusEnum" "f b' \<noteq> f b"
  shows "save savedAt b b' = Inr (b'\<lparr>updatedAt := savedAt\<rparr>)"
  using assms by (auto simp: save_def)

lemma sampleCheckedIn_eq:
  "sampleCheckedIn = sampleBooking\<lparr>checkedIn := True,
                      checkInTime := Some 1894680900007,
                      checkoutOTP := Some ''550000'',
                      status := InProgress,
                      checkOutEligibleTime := Some 1894682100007,
                      canCheckOut := False,
                      updatedAt := 1894680900009\<rparr>"
  using checkin_window_sample by (simp add: sampleCheckedIn_def)

lemma minutesLeft_int: "minutesLeft e now = - ((now - e) div 60000)"
proof -
  have "\<lceil>real_of_int (e - now) / real_of_int 60000\<rceil> = - (- (e - now) div 60000)"
    by (rule ceiling_divide_eq_div)
  then show ?thesis by (simp add: minutesLeft_def)
qed

text \<open>
  Claim C5. For a booking that is checked in at \<open>t\<close> and not checked out, whose
  eligible time is \<open>t + 20 min\<close> as check-in stores it (or is not stored), a
  self-checkout of the owner at a clock reading strictly before \<open>t + 20 min\<close> is
  rejected with the number of minutes left, the ceiling of the remaining time in
  minutes, and writes nothing; at or after \<open>t + 20 min\<close> it succeeds and stores
  \<open>checkedOut\<close> true, \<open>checkOutTime\<close> the reading \<open>t'\<close> taken at the write,
  status completed, \<open>canCheckOut\<close> true and no \<open>checkoutOTP\<close>, with
  \<open>updatedAt\<close> set as by every write.
\<close>

theorem C5_self_checkout:
  assumes own: "user b = caller" and ci: "checkedIn b" and nco: "\<not> checkedOut b"
    and t: "checkInTime b = Some t"
    and e: "checkOutEligibleTime b = Some (t + minutes 20) \<or> checkOutEligibleTime b = None"
  shows "(now < t + minutes 20 \<longrightarrow>
            userCheckout caller now t' savedAt (Some b)
              = Inl (WaitMinutes \<lceil>real_of_int (t + minutes 20 - now) / (1000 * 60)\<rceil>)
          \<and> stored_after b (userCheckout caller now t' savedAt (Some b)) = b)
     \<and> (t + minutes 20 \<le> now \<longrightarrow>
            userCheckout caller now t' savedAt (Some b)
              = Inr (b\<lparr>checkedOut := True,
                        checkOutTime := Some t',
                        status := Completed,
                        canCheckOut := True,
                        checkoutOTP := None,
                        updatedAt := savedAt\<rparr>))"
proof -
  from t e have el: "eligibleTime b = Some (t + minutes 20)"
    by (auto simp: eligibleTime_def minutes_def)
  from nco have w: "save savedAt b
            (b\<lparr>checkedOut := True, checkOutTime := Some t', status := Completed,
               canCheckOut := True, checkoutOTP := None\<rparr>)
      = Inr (b\<lparr>checkedOut := True, checkOutTime := Some t', status := Completed,
               canCheckOut := True, checkoutOTP := None, updatedAt := savedAt\<rparr>)"
    using save_changed [where f = checkedOut and b = b and savedAt = savedAt
        and b' = "b\<lparr>checkedOut := True, checkOutTime := Some t', status := Completed,
               canCheckOut := True, checkoutOTP := None\<rparr>"]
    by (simp add: statusEnum_def)
  show ?thesis
    using own ci nco el w by (simp add: userCheckout_def minutesLeft_def)
qed

theorem C5_self_checkout_witness:
  "userCheckout ''u1'' 1894681470007 1894681470009 1894681470011 (Some sampleCheckedIn)
       = Inl (WaitMinutes 11)
   \<and> stored_after sampleCheckedIn
        (userCheckout ''u1'' 1894681470007 1894681470009 1894681470011 (Some sampleCheckedIn))
       = sampleCheckedIn
   \<and> userCheckout ''u1'' 1894682100007 1894682100009 1894682100011 (Some sampleCheckedIn)
       = Inr (sampleCheckedIn\<lparr>checkedOut := True,
                        checkOutTime := Some 1894682100009,
                        status := Completed,
                        canCheckOut := True,
                        checkoutOTP := None,
                        updatedAt := 1894682100011\<rparr>)"
proof -
  have h: "user sampleCheckedIn = ''u1''" "checkedIn sampleCheckedIn"
    "\<not> checkedOut sampleCheckedIn" "checkInTime sampleCheckedIn = Some 1894680900007"
    "checkOutEligibleTime sampleCheckedIn = Some (1894680900007 + minutes 20)
     \<or> checkOutEligibleTime sampleCheckedIn = None"
    by (simp_all add: sampleCheckedIn_eq sampleBooking_def newBooking_def minutes_def)
  from C5_self_checkout [OF h, of 1894681470007 1894681470009 1894681470011]
       C5_self_checkout [OF h, of 1894682100007 1894682100009 1894682100011]
  show ?thesis by (simp add: minutes_def)
qed


subsection \<open>The eligible time of every reachable booking\<close>

text \<open>
  The hypothesis of the theorem on the eligible time holds of every booking that
  the system can reach: \<open>checkinConsistent\<close> is true of a new booking and is kept
  by every operation.
\<close>

lemma updateStatus_consistent:
  "checkinConsistent b \<Longrightarrow>
   checkinConsistent (stored_after b (updateStatus caller now savedAt st reason (Some b)))"
  by (auto simp: updateStatus_def save_def cancelBooking_def checkinConsistent_def
      split: option.splits if_splits)

lemma reschedule_consistent:
  "checkinConsistent b \<Longrightarrow>
   checkinConsistent (stored_after b (reschedule caller now later savedAt nd nt (Some b)))"
  by (auto simp: reschedule_def rescheduleBooking_def save_def checkinConsistent_def split: option.splits if_splits)

lemma feedbackRoute_consistent:
  "checkinConsistent b \<Longrightarrow>
   checkinConsistent (stored_after b (feedbackRoute caller now savedAt r fb (Some b)))"
  by (auto simp: feedbackRoute_def addFeedback_def save_def checkinConsistent_def split: option.splits if_splits)

lemma rateRoute_consistent:
  "checkinConsistent b \<Longrightarrow> checkinConsistent (stored_after b (rateRoute caller savedAt r c (Some b)))"
  by (auto simp: rateRoute_def save_def checkinConsistent_def split: option.splits if_splits)

lemma cancelRoute_consistent:
  "checkinConsistent b \<Longrightarrow> checkinConsistent (stored_after b (cancelRoute caller savedAt (Some b)))"
  by (auto simp: cancelRoute_def save_def checkinConsistent_def split: option.splits if_splits)

lemma checkin_consistent:
  "checkinConsistent b \<Longrightarrow>
   checkinConsistent (stored_after b (checkin tz caller now r t savedAt (Some b)))"
  by (auto simp: checkin_def save_def checkinConsistent_def split: option.splits if_splits)

lemma userCheckout_consistent:
  "checkinConsistent b \<Longrightarrow>
   checkinConsistent (stored_after b (userCheckout caller now t savedAt (Some b)))"
  by (auto simp: userCheckout_def save_def checkinConsistent_def split: option.splits if_splits)

lemma checkout_consistent:
  "checkinConsistent b \<Longrightarrow>
   checkinConsistent (stored_after b (checkout t savedAt otp adminId (Some b)))"
  by (auto simp: checkout_def save_def checkinConsistent_def split: option.splits if_splits)

lemma getBooking_consistent:
  "checkinConsistent b \<Longrightarrow>
   checkinConsistent (stored_after_get b (getBooking caller now savedAt (Some b)))"
  by (auto simp: getBooking_def stored_after_get_def save_def checkinConsistent_def split: option.splits if_splits)

lemma adminUpdateStatus_consistent:
  "checkinConsistent b \<Longrightarrow>
   checkinConsistent (stored_after b (adminUpdateStatus now savedAt st an reason (Some b)))"
  by (auto simp: adminUpdateStatus_def save_def cancelBooking_def markAsNoShow_def
      completeBooking_def checkinConsistent_def split: option.splits if_splits)

lemma bulkUpdateOne_consistent:
  "checkinConsistent b \<Longrightarrow>
   checkinConsistent (stored_after b (bulkUpdateOne action d now savedAt (Some b)))"
  by (cases action)
     (auto simp: bulkUpdateOne_def cancelBooking_def markAsNoShow_def rescheduleBooking_def
        save_def checkinConsistent_def split: option.splits if_splits)

lemma perform_consistent:
  assumes "checkinConsistent b"
  shows "checkinConsistent (perform q b)"
proof (cases q)
  case (ReqSweep now savedAt)
  with assms show ?thesis
    by (auto simp: noShowSet_def checkinConsistent_def split: option.splits if_splits)
next
  case (ReqOtherWrite savedAt)
  with assms show ?thesis
    by (auto simp: otherWrite_def checkinConsistent_def split: option.splits if_splits)
qed (use assms in \<open>simp_all add: updateStatus_consistent reschedule_consistent
      feedbackRoute_consistent rateRoute_consistent cancelRoute_consistent checkin_consistent
      userCheckout_consistent checkout_consistent getBooking_consistent
      adminUpdateStatus_consistent bulkUpdateOne_consistent\<close>)

lemma run_consistent: "checkinConsistent b \<Longrightarrow> checkinConsistent (run qs b)"
proof (induction qs arbitrary: b)
  case Nil
  then show ?case by simp
next
  case (Cons q qs)
  from Cons.prems have "checkinConsistent (perform q b)" by (rule perform_consistent)
  then show ?case using Cons.IH by simp
qed

lemma reachable_consistent:
  "checkinConsistent (run qs (newBooking owner loc date t ref createdAt))"
  by (rule run_consistent) (simp add: checkinConsistent_def newBooking_def)

lemma consistent_eligible:
  assumes "checkinConsistent b" "checkedIn b"
  shows "\<exists>t. checkInTime b = Some t \<and> checkOutEligibleTime b = Some (t + minutes 20)"
  using assms by (simp add: checkinConsistent_def minutes_def split: option.splits)


section \<open>Staff checkout with the OTP\<close>

text \<open>
  Claim C4. For a booking that is checked in and not checked out: a staff
  checkout whose OTP differs from the stored \<open>checkoutOTP\<close> is always rejected,
  as an invalid OTP when the request is well formed, and writes nothing, so
  \<open>checkedOut\<close> stays false. A well-formed request (an OTP of six characters
  and an admin id) with the stored OTP succeeds: it stores \<open>checkedOut\<close> true,
  the check-out time, status completed, the admin id and no \<open>checkoutOTP\<close>,
  with \<open>updatedAt\<close> set as by every write. The
  same request sent again is rejected, the booking being checked out, and writes
  nothing: the checkout succeeds once.
\<close>

theorem C4_staff_checkout:
  assumes ci: "checkedIn b" and nco: "\<not> checkedOut b"
  shows "(checkoutOTP b \<noteq> Some otp \<longrightarrow>
            (\<exists>e. checkout t savedAt otp adminId (Some b) = Inl e)
          \<and> stored_after b (checkout t savedAt otp adminId (Some b)) = b
          \<and> \<not> checkedOut (stored_after b (checkout t savedAt otp adminId (Some b)))
          \<and> (length otp = 6 \<and> adminId \<noteq> [] \<longrightarrow>
                checkout t savedAt otp adminId (Some b) = Inl InvalidOTP))
     \<and> (checkoutOTP b = Some otp \<and> length otp = 6 \<and> adminId \<noteq> [] \<longrightarrow>
            checkout t savedAt otp adminId (Some b)
              = Inr (b\<lparr>checkedOut := True,
                        checkOutTime := Some t,
                        status := Completed,
                        adminCheckout := Some adminId,
                        checkoutOTP := None,
                        updatedAt := savedAt\<rparr>)
          \<and> checkout t' savedAgain otp adminId
                (Some (stored_after b (checkout t savedAt otp adminId (Some b))))
              = Inl PatientAlreadyCheckedOut
          \<and> stored_after (stored_after b (checkout t savedAt otp adminId (Some b)))
               (checkout t' savedAgain otp adminId
                (Some (stored_after b (checkout t savedAt otp adminId (Some b)))))
              = stored_after b (checkout t savedAt otp adminId (Some b)))"
proof -
  from nco have w: "save savedAt b
            (b\<lparr>checkedOut := True, checkOutTime := Some t, status := Completed,
               adminCheckout := Some adminId, checkoutOTP := None\<rparr>)
      = Inr (b\<lparr>checkedOut := True, checkOutTime := Some t, status := Completed,
               adminCheckout := Some adminId, checkoutOTP := None, updatedAt := savedAt\<rparr>)"
    using save_changed [where f = checkedOut and b = b and savedAt = savedAt
        and b' = "b\<lparr>checkedOut := True, checkOutTime := Some t, status := Completed,
               adminCheckout := Some adminId, checkoutOTP := None\<rparr>"]
    by (simp add: statusEnum_def)
  show ?thesis
    using ci nco w by (simp add: checkout_def)
qed

theorem C4_staff_checkout_witness:
  "checkout 1894681000000 1894681000003 ''123456'' ''admin1'' (Some sampleCheckedIn) = Inl InvalidOTP
   \<and> stored_after sampleCheckedIn
        (checkout 1894681000000 1894681000003 ''123456'' ''admin1'' (Some sampleCheckedIn)) = sampleCheckedIn
   \<and> checkout 1894681000000 1894681000003 ''550000'' ''admin1'' (Some sampleCheckedIn)
       = Inr (sampleCheckedIn\<lparr>checkedOut := True,
                        checkOutTime := Some 1894681000000,
                        status := Completed,
                        adminCheckout := Some ''admin1'',
                        checkoutOTP := None,
                        updatedAt := 1894681000003\<rparr>)
   \<and> checkout 1894681000005 1894681000007 ''550000'' ''admin1''
        (Some (stored_after sampleCheckedIn
                 (checkout 1894681000000 1894681000003 ''550000'' ''admin1'' (Some sampleCheckedIn))))
       = Inl PatientAlreadyCheckedOut"
proof -
  have h: "checkedIn sampleCheckedIn" "\<not> checkedOut sampleCheckedIn"
    by (simp_all add: sampleCheckedIn_eq sampleBooking_def newBooking_def)
  have o: "checkoutOTP sampleCheckedIn = Some ''550000''"
    by (simp add: sampleCheckedIn_eq)
  from C4_staff_checkout [OF h, where otp = "''123456''" and t = 1894681000000
         and savedAt = 1894681000003 and adminId = "''admin1''"] o
  have wrong: "checkout 1894681000000 1894681000003 ''123456'' ''admin1'' (Some sampleCheckedIn) = Inl InvalidOTP"
    by simp
  have len: "length ''550000'' = 6" "''admin1'' \<noteq> []" by simp_all
  from C4_staff_checkout [OF h, where otp = "''550000''" and t = 1894681000000
         and savedAt = 1894681000003 and adminId = "''admin1''" and t' = 1894681000005
         and savedAgain = 1894681000007] o len
  have right: "checkout 1894681000000 1894681000003 ''550000'' ''admin1'' (Some sampleCheckedIn)
       = Inr (sampleCheckedIn\<lparr>checkedOut := True,
                        checkOutTime := Some 1894681000000,
                        status := Completed,
                        adminCheckout := Some ''admin1'',
                        checkoutOTP := None,
                        updatedAt := 1894681000003\<rparr>)"
    and replay: "checkout 1894681000005 1894681000007 ''550000'' ''admin1''
        (Some (stored_after sampleCheckedIn
                 (checkout 1894681000000 1894681000003 ''550000'' ''admin1'' (Some sampleCheckedIn))))
       = Inl PatientAlreadyCheckedOut"
    by blast+
  from wrong right replay show ?thesis by (simp add: stored_after_def)
qed

section \<open>The write of the read by id\<close>

text \<open>
  What \<^verbatim>\<open>save()\<close> answers, and the document that the handler stores when it
  assigns \<open>canCheckOut\<close>: the loaded one when the path was true already, the
  loaded one with the path true and \<open>updatedAt\<close> rewritten otherwise.
\<close>

lemma save_result:
  "save savedAt b b' = Inl ServerError \<or> (b' = b \<and> save savedAt b b' = Inr b)
   \<or> save savedAt b b' = Inr (b'\<lparr>updatedAt := savedAt\<rparr>)"
  by (auto simp: save_def)

lemma getBooking_stored:
  "stored_after_get b (getBooking caller now savedAt (Some b)) = b
   \<or> stored_after_get b (getBooking caller now savedAt (Some b))
       = b\<lparr>canCheckOut := True, updatedAt := savedAt\<rparr>"
  using save_result [of savedAt b "b\<lparr>canCheckOut := True\<rparr>"]
  by (auto simp: getBooking_def stored_after_get_def split: option.splits)

lemma otherPaths_written: "otherPaths (b\<lparr>canCheckOut := True, updatedAt := savedAt\<rparr>) = otherPaths b"
  by (simp add: otherPaths_def)

lemma getBooking_frame:
  "otherPaths (stored_after_get b (getBooking caller now savedAt (Some b))) = otherPaths b"
  using getBooking_stored [where b = b and caller = caller and now = now and savedAt = savedAt]
    otherPaths_written [where b = b and savedAt = savedAt]
  by auto

lemma canCheckOut_same: "canCheckOut b \<Longrightarrow> b\<lparr>canCheckOut := True\<rparr> = b"
  by simp

lemma save_unchanged: "status b \<in> set statusEnum \<Longrightarrow> save savedAt b b = Inr b"
  by (simp add: save_def)

lemma save_canCheckOut:
  assumes "status b \<in> set statusEnum"
  shows "save savedAt b (b\<lparr>canCheckOut := True\<rparr>)
     = Inr (if canCheckOut b then b else b\<lparr>canCheckOut := True, updatedAt := savedAt\<rparr>)"
proof (cases "canCheckOut b")
  case True
  then have eq: "b\<lparr>canCheckOut := True\<rparr> = b" by (rule canCheckOut_same)
  from assms have "save savedAt b b = Inr b" by (rule save_unchanged)
  then have "save savedAt b (b\<lparr>canCheckOut := True\<rparr>) = Inr b" by (simp only: eq)
  with True show ?thesis by (simp only: if_True)
next
  case False
  from assms have s: "status (b\<lparr>canCheckOut := True\<rparr>) \<in> set statusEnum" by simp
  from False have d: "canCheckOut (b\<lparr>canCheckOut := True\<rparr>) \<noteq> canCheckOut b" by simp
  from s d have "save savedAt b (b\<lparr>canCheckOut := True\<rparr>)
      = Inr (b\<lparr>canCheckOut := True, updatedAt := savedAt\<rparr>)"
    by (rule save_changed)
  with False show ?thesis by (simp only: if_False)
qed

lemma getBooking_eligible:
  assumes "user b = caller" "checkedIn b" "\<not> checkedOut b"
    and "checkOutEligibleTime b = Some e" "e \<le> now" "save savedAt b (b\<lparr>canCheckOut := True\<rparr>) = Inr w"
  shows "getBooking caller now savedAt (Some b)
     = Inr \<lparr>canCheckOutNow = True, minutesUntilCheckout = 0, written = Some w\<rparr>"
  using assms by (simp add: getBooking_def eligibleTime_def)


text \<open>
  The status of every booking that the system stores is one of the schema's
  enum: a new booking is confirmed, every \<^verbatim>\<open>save()\<close> validates the status, and
  the sweep assigns no-show.
\<close>

lemma save_status_enum:
  "status b \<in> set statusEnum \<Longrightarrow> status (stored_after b (save savedAt b b')) \<in> set statusEnum"
  by (auto simp: save_def)

lemma perform_status_enum:
  assumes "status b \<in> set statusEnum"
  shows "status (perform q b) \<in> set statusEnum"
proof (cases q)
  case (ReqUpdateStatus caller now savedAt st reason)
  with assms show ?thesis
    by (auto simp: updateStatus_def save_def split: option.splits if_splits)
next
  case (ReqReschedule caller now stamp savedAt newDate newTime)
  with assms show ?thesis
    by (auto simp: reschedule_def rescheduleBooking_def save_def split: option.splits if_splits)
next
  case (ReqFeedback caller now savedAt r fb)
  with assms show ?thesis
    by (auto simp: feedbackRoute_def save_def split: option.splits if_splits)
next
  case (ReqRate caller savedAt r comment)
  with assms show ?thesis
    by (auto simp: rateRoute_def save_def split: option.splits if_splits)
next
  case (ReqCancel caller savedAt)
  with assms show ?thesis
    by (auto simp: cancelRoute_def save_def split: option.splits if_splits)
next
  case (ReqCheckin tz caller now r t savedAt)
  with assms show ?thesis
    by (auto simp: checkin_def save_def split: option.splits if_splits)
next
  case (ReqUserCheckout caller now t savedAt)
  with assms show ?thesis
    by (auto simp: userCheckout_def save_def split: option.splits if_splits)
next
  case (ReqCheckout t savedAt otp adminId)
  with assms show ?thesis
    by (auto simp: checkout_def save_def split: option.splits if_splits)
next
  case (ReqGet caller now savedAt)
  with assms show ?thesis
    by (auto simp: getBooking_def stored_after_get_def save_def split: option.splits if_splits)
next
  case (ReqAdminStatus now savedAt st adminNotes reason)
  with assms show ?thesis
    by (auto simp: adminUpdateStatus_def save_def split: option.splits if_splits)
next
  case (ReqBulk action d now savedAt)
  with assms show ?thesis
    by (cases action)
       (auto simp: bulkUpdateOne_def rescheduleBooking_def save_def
          split: option.splits if_splits)
next
  case (ReqSweep now savedAt)
  with assms show ?thesis by (simp add: noShowSet_def statusEnum_def)
next
  case (ReqOtherWrite savedAt)
  with assms show ?thesis by (simp add: otherWrite_def)
qed

lemma run_status_enum: "status b \<in> set statusEnum \<Longrightarrow> status (run qs b) \<in> set statusEnum"
proof (induction qs arbitrary: b)
  case Nil
  then show ?case by simp
next
  case (Cons q qs)
  from Cons.prems have "status (perform q b) \<in> set statusEnum" by (rule perform_status_enum)
  then show ?case using Cons.IH by simp
qed

lemma reachable_status_enum:
  "status (run qs (newBooking owner loc date t ref createdAt)) \<in> set statusEnum"
  by (rule run_status_enum) (simp add: newBooking_def statusEnum_def)

text \<open>
  Claim C10, amended. GET /:id writes: for a booking that the caller owns, that
  is checked in and not checked out, whose \<open>checkOutEligibleTime\<close> is at or
  before the clock reading and whose stored status is one of the schema's enum
  (as it is of every booking that the system stores), the stored booking
  afterwards has \<open>canCheckOut\<close> true; when that changes the document, the
  \<^verbatim>\<open>save()\<close> that stores it also sets \<open>updatedAt\<close> to its own clock
  reading. In every case the stored booking afterwards is the booking before or
  the booking before with \<open>canCheckOut\<close> true and \<open>updatedAt\<close> rewritten:
  every path other than these two keeps its value.
\<close>

theorem C10_get_booking_write:
  "(user b = caller \<and> checkedIn b \<and> \<not> checkedOut b
      \<and> checkOutEligibleTime b = Some e \<and> e \<le> now \<and> status b \<in> set statusEnum \<longrightarrow>
        getBooking caller now savedAt (Some b)
          = Inr \<lparr>canCheckOutNow = True, minutesUntilCheckout = 0,
                 written = Some (if canCheckOut b then b
                                 else b\<lparr>canCheckOut := True, updatedAt := savedAt\<rparr>)\<rparr>
      \<and> stored_after_get b (getBooking caller now savedAt (Some b))
          = (if canCheckOut b then b else b\<lparr>canCheckOut := True, updatedAt := savedAt\<rparr>)
      \<and> canCheckOut (stored_after_get b (getBooking caller now savedAt (Some b))))
   \<and> (stored_after_get b (getBooking caller now savedAt (Some b)) = b
        \<or> stored_after_get b (getBooking caller now savedAt (Some b))
            = b\<lparr>canCheckOut := True, updatedAt := savedAt\<rparr>)
   \<and> otherPaths (stored_after_get b (getBooking caller now savedAt (Some b)))
        = otherPaths b"
proof -
  define w where "w = (if canCheckOut b then b else b\<lparr>canCheckOut := True, updatedAt := savedAt\<rparr>)"
  have cw: "canCheckOut w"
    by (cases "canCheckOut b") (simp_all add: w_def)
  have 1: "getBooking caller now savedAt (Some b)
          = Inr \<lparr>canCheckOutNow = True, minutesUntilCheckout = 0, written = Some w\<rparr>
      \<and> stored_after_get b (getBooking caller now savedAt (Some b)) = w
      \<and> canCheckOut (stored_after_get b (getBooking caller now savedAt (Some b)))"
    if h: "user b = caller" "checkedIn b" "\<not> checkedOut b"
      "checkOutEligibleTime b = Some e" "e \<le> now" "status b \<in> set statusEnum"
  proof -
    from h(6) have s: "save savedAt b (b\<lparr>canCheckOut := True\<rparr>) = Inr w"
      unfolding w_def by (rule save_canCheckOut)
    from h(1-5) s have g: "getBooking caller now savedAt (Some b)
          = Inr \<lparr>canCheckOutNow = True, minutesUntilCheckout = 0, written = Some w\<rparr>"
      by (rule getBooking_eligible)
    then have st: "stored_after_get b (getBooking caller now savedAt (Some b)) = w"
      by (simp add: stored_after_get_def)
    from g st cw show ?thesis by simp
  qed
  have 2: "stored_after_get b (getBooking caller now savedAt (Some b)) = b
        \<or> stored_after_get b (getBooking caller now savedAt (Some b))
            = b\<lparr>canCheckOut := True, updatedAt := savedAt\<rparr>"
    by (rule getBooking_stored)
  have 3: "otherPaths (stored_after_get b (getBooking caller now savedAt (Some b)))
        = otherPaths b"
    by (rule getBooking_frame)
  from 1 2 3 show ?thesis unfolding w_def by blast
qed

theorem C10_get_booking_write_witness:
  "canCheckOut sampleCheckedIn = False
   \<and> stored_after_get sampleCheckedIn
        (getBooking ''u1'' 1894682100007 1894682100011 (Some sampleCheckedIn))
       = sampleCheckedIn\<lparr>canCheckOut := True, updatedAt := 1894682100011\<rparr>
   \<and> stored_after_get sampleCheckedIn
        (getBooking ''u1'' 1894682100006 1894682100011 (Some sampleCheckedIn))
       = sampleCheckedIn"
proof -
  have h: "user sampleCheckedIn = ''u1''" "checkedIn sampleCheckedIn"
    "\<not> checkedOut sampleCheckedIn" "checkOutEligibleTime sampleCheckedIn = Some 1894682100007"
    "canCheckOut sampleCheckedIn = False" "status sampleCheckedIn \<in> set statusEnum"
    by (simp_all add: sampleCheckedIn_eq sampleBooking_def newBooking_def statusEnum_def)
  have early: "getBooking ''u1'' 1894682100006 1894682100011 (Some sampleCheckedIn)
      = Inr \<lparr>canCheckOutNow = False, minutesUntilCheckout = 1, written = None\<rparr>"
    using h by (simp add: getBooking_def eligibleTime_def minutesLeft_int)
  from C10_get_booking_write
         [where b = sampleCheckedIn and caller = "''u1''" and e = 1894682100007
            and now = 1894682100007 and savedAt = 1894682100011] h early
  show ?thesis by (simp add: stored_after_get_def)
qed

text \<open>
  The claim as stated, with every path other than \<open>canCheckOut\<close> unchanged,
  fails on the sample booking after its check-in: the read at the eligible time
  stores \<open>canCheckOut\<close> true, and the stored \<open>updatedAt\<close> is no longer
  the reading of the check-in but that of the read.
\<close>

theorem C10_updatedAt_counterexample:
  "user sampleCheckedIn = ''u1'' \<and> checkedIn sampleCheckedIn \<and> \<not> checkedOut sampleCheckedIn
   \<and> checkOutEligibleTime sampleCheckedIn = Some 1894682100007
   \<and> updatedAt sampleCheckedIn = 1894680900009
   \<and> map_sum id written
        (getBooking ''u1'' 1894682100007 1894682100011 (Some sampleCheckedIn))
       = Inr (Some (sampleCheckedIn\<lparr>canCheckOut := True, updatedAt := 1894682100011\<rparr>))
   \<and> updatedAt (stored_after_get sampleCheckedIn
        (getBooking ''u1'' 1894682100007 1894682100011 (Some sampleCheckedIn)))
       = 1894682100011"
proof -
  have h: "user sampleCheckedIn = ''u1''" "checkedIn sampleCheckedIn"
    "\<not> checkedOut sampleCheckedIn" "checkOutEligibleTime sampleCheckedIn = Some 1894682100007"
    "(1894682100007::int) \<le> 1894682100007"
    and u: "updatedAt sampleCheckedIn = 1894680900009"
    and c: "\<not> canCheckOut sampleCheckedIn"
    and s: "status sampleCheckedIn \<in> set statusEnum"
    by (simp_all add: sampleCheckedIn_eq sampleBooking_def newBooking_def statusEnum_def)
  from save_canCheckOut [OF s, where savedAt = 1894682100011] c
  have w: "save 1894682100011 sampleCheckedIn (sampleCheckedIn\<lparr>canCheckOut := True\<rparr>)
      = Inr (sampleCheckedIn\<lparr>canCheckOut := True, updatedAt := 1894682100011\<rparr>)"
    by (simp only: if_False)
  from h w have g: "getBooking ''u1'' 1894682100007 1894682100011 (Some sampleCheckedIn)
      = Inr \<lparr>canCheckOutNow = True, minutesUntilCheckout = 0,
             written = Some (sampleCheckedIn\<lparr>canCheckOut := True,
                                            updatedAt := 1894682100011\<rparr>)\<rparr>"
    by (rule getBooking_eligible)
  from h u g show ?thesis by (simp add: stored_after_get_def)
qed

section \<open>Day availability\<close>

lemma timeSlots_eq:
  "timeSlots = [''10:00'', ''11:00'', ''12:00'', ''13:00'', ''14:00'',
                ''15:00'', ''16:00'', ''17:00'', ''18:00'', ''19:00'']"
  by (simp add: timeSlots_def upto.simps toString_def toStringNat_2 zeroPadded_2 padStart2_def
      digitChar_def)

lemma slotHour_eq:
  "map (\<lambda>slot. parseInt (beforeColon slot)) timeSlots
     = map Some [10, 11, 12, 13, 14, 15, 16, 17, 18, 19]"
  by (simp add: timeSlots_eq parseInt_def beforeColon_def isDigit_def digitVal_def)

lemma localDay_startOfDay: "localDay tz (startOfDay tz d) = localDay tz d"
  by (simp add: localDay_def startOfDay_def msPerDay_def)

lemma endOfDay_startOfDay: "endOfDay tz (startOfDay tz d) = endOfDay tz d"
  by (simp add: endOfDay_def startOfDay_def localDay_def msPerDay_def)

lemma localDay_endOfDay: "localDay tz (endOfDay tz d) = localDay tz d"
proof -
  have "(localDay tz d * 86400000 + 86399999) div 86400000 = localDay tz d"
    by (simp add: div_pos_pos_trivial)
  then show ?thesis
    by (simp add: endOfDay_def startOfDay_def msPerDay_def localDay_def)
qed

text \<open>
  An instant is on the local calendar day of \<open>d\<close> exactly when it lies between
  the start of that day and its 23:59:59.999, both included.
\<close>

lemma div_day_iff:
  "(x::int) div 86400000 = k \<longleftrightarrow> k * 86400000 \<le> x \<and> x < k * 86400000 + 86400000"
proof -
  have m: "0 \<le> x mod 86400000" "x mod 86400000 < 86400000" by simp_all
  have e: "x = 86400000 * (x div 86400000) + x mod 86400000" by simp
  show ?thesis
  proof
    assume "x div 86400000 = k"
    with m e show "k * 86400000 \<le> x \<and> x < k * 86400000 + 86400000" by linarith
  next
    assume b: "k * 86400000 \<le> x \<and> x < k * 86400000 + 86400000"
    have "\<not> x div 86400000 < k"
    proof
      assume "x div 86400000 < k"
      then have "x div 86400000 + 1 \<le> k" by simp
      with m e b show False by linarith
    qed
    moreover have "\<not> k < x div 86400000"
    proof
      assume "k < x div 86400000"
      then have "k + 1 \<le> x div 86400000" by simp
      with m e b show False by linarith
    qed
    ultimately show "x div 86400000 = k" by linarith
  qed
qed

lemma localDay_eq_iff:
  "localDay tz t = localDay tz d \<longleftrightarrow> startOfDay tz d \<le> t \<and> t \<le> endOfDay tz d"
  using div_day_iff [of "t + tz" "localDay tz d"]
  by (simp add: localDay_def startOfDay_def endOfDay_def msPerDay_def) linarith

lemma findDayBookings_set:
  "set (findDayBookings s e loc bs)
     = {b \<in> set bs. s \<le> appointmentDate b \<and> appointmentDate b < e \<and> location b = loc
                    \<and> status b \<in> {Pending, Confirmed, InProgress}}"
  by (auto simp: findDayBookings_def)

text \<open>
  What the handler computes for each of the ten slots. A slot is marked past
  exactly when the local day of the query is today's and the slot's hour is at
  most the current hour plus one; it is marked booked exactly when some booking
  of the collection has that location, one of the statuses pending, confirmed,
  in-progress, that slot as its \<open>appointmentTime\<close> and an \<open>appointmentDate\<close>
  from the start of the queried day up to, but not including, its
  23:59:59.999; it is available exactly when it is neither; and the available
  slots are those marked available.
\<close>

lemma dayAvailability_slot_details:
  assumes "dayAvailability tz today (Some d) loc bs = Inr a"
  shows "slotDetails a
     = map (\<lambda>slot. \<lparr>time = slot,
                     isAvailable =
                       (\<not> (\<exists>b \<in> set bs. startOfDay tz d \<le> appointmentDate b
                              \<and> appointmentDate b < endOfDay tz d \<and> location b = loc
                              \<and> status b \<in> {Pending, Confirmed, InProgress}
                              \<and> appointmentTime b = slot)
                        \<and> \<not> (localDay tz d = localDay tz today
                              \<and> (case parseInt (beforeColon slot) of
                                    None \<Rightarrow> False
                                  | Some slotHour \<Rightarrow> int slotHour \<le> getHours tz today + 1))),
                     isBooked =
                       (\<exists>b \<in> set bs. startOfDay tz d \<le> appointmentDate b
                              \<and> appointmentDate b < endOfDay tz d \<and> location b = loc
                              \<and> status b \<in> {Pending, Confirmed, InProgress}
                              \<and> appointmentTime b = slot),
                     isPastTime =
                       (localDay tz d = localDay tz today
                        \<and> (case parseInt (beforeColon slot) of
                              None \<Rightarrow> False
                            | Some slotHour \<Rightarrow> int slotHour \<le> getHours tz today + 1))\<rparr>)
         timeSlots
    \<and> availableSlots a = map time (filter isAvailable (slotDetails a))"
proof -
  have booked: "list_ex (\<lambda>b. appointmentTime b = slot)
                  (findDayBookings (startOfDay tz d) (endOfDay tz (startOfDay tz d)) loc bs)
        \<longleftrightarrow> (\<exists>b \<in> set bs. startOfDay tz d \<le> appointmentDate b
                              \<and> appointmentDate b < endOfDay tz d \<and> location b = loc
                              \<and> status b \<in> {Pending, Confirmed, InProgress}
                              \<and> appointmentTime b = slot)" for slot
    by (auto simp: list_ex_iff findDayBookings_set endOfDay_startOfDay)
  have today: "localDay tz (endOfDay tz (startOfDay tz d)) = localDay tz today
        \<longleftrightarrow> localDay tz d = localDay tz today"
    by (simp add: endOfDay_startOfDay localDay_endOfDay)
  from assms have sl: "slotDetails a
       = map (slotDetail (findDayBookings (startOfDay tz d) (endOfDay tz (startOfDay tz d)) loc bs)
               (localDay tz (endOfDay tz (startOfDay tz d)) = localDay tz today)
               (getHours tz today)) timeSlots"
    and av: "availableSlots a = map time (filter isAvailable (slotDetails a))"
    by (auto simp: dayAvailability_def Let_def split: if_splits)
  have sd: "slotDetail (findDayBookings (startOfDay tz d) (endOfDay tz (startOfDay tz d)) loc bs)
               (localDay tz (endOfDay tz (startOfDay tz d)) = localDay tz today) (getHours tz today) slot
     = \<lparr>time = slot,
                     isAvailable =
                       (\<not> (\<exists>b \<in> set bs. startOfDay tz d \<le> appointmentDate b
                              \<and> appointmentDate b < endOfDay tz d \<and> location b = loc
                              \<and> status b \<in> {Pending, Confirmed, InProgress}
                              \<and> appointmentTime b = slot)
                        \<and> \<not> (localDay tz d = localDay tz today
                              \<and> (case parseInt (beforeColon slot) of
                                    None \<Rightarrow> False
                                  | Some slotHour \<Rightarrow> int slotHour \<le> getHours tz today + 1))),
                     isBooked =
                       (\<exists>b \<in> set bs. startOfDay tz d \<le> appointmentDate b
                              \<and> appointmentDate b < endOfDay tz d \<and> location b = loc
                              \<and> status b \<in> {Pending, Confirmed, InProgress}
                              \<and> appointmentTime b = slot),
                     isPastTime =
                       (localDay tz d = localDay tz today
                        \<and> (case parseInt (beforeColon slot) of
                              None \<Rightarrow> False
                            | Some slotHour \<Rightarrow> int slotHour \<le> getHours tz today + 1))\<rparr>" for slot
    unfolding slotDetail_def Let_def booked today by simp
  from sl av show ?thesis by (simp add: sd)
qed


lemma sample_fields:
  "user sampleBooking = ''u1''" "location sampleBooking = ''Kokapet''"
  "appointmentDate sampleBooking = 1894681800000" "appointmentTime sampleBooking = ''10:00''"
  "status sampleBooking = Confirmed"
  by (simp_all add: sampleBooking_def newBooking_def)

lemma sampleLastMillisecond_fields:
  "location sampleLastMillisecond = ''Kokapet''"
  "appointmentDate sampleLastMillisecond = 1894732199999"
  "appointmentTime sampleLastMillisecond = ''10:00''"
  "status sampleLastMillisecond = Confirmed"
  by (simp_all add: sampleLastMillisecond_def sampleBooking_def newBooking_def reschedule_def
      rescheduleBooking_def updateStatus_def optLength_def save_def statusEnum_def
      isDigit_def)

text \<open>
  Claim C1, evaluated where the handler departs from it. The query is for
  2030-01-15 at Kokapet, asked on 2026-11-01, on a server in the clinic's zone.
  The only booking is confirmed, at Kokapet, for the slot 10:00, and its
  \<open>appointmentDate\<close> is the last millisecond of 2030-01-15, so it is a booking
  of the queried location and date; its owner has brought it there by a
  reschedule and a status update. The query's upper bound is \<^verbatim>\<open>$lt\<close> that very
  millisecond and misses the booking: the slot 10:00 is listed as available and
  no slot as booked. One millisecond earlier the same booking is found and the
  slot is booked. (The month view bounds its query with \<^verbatim>\<open>$lte\<close> of the same
  instant.)
\<close>

theorem C1_last_millisecond_listed_available:
  "localDay 19800000 (appointmentDate sampleLastMillisecond) = localDay 19800000 1894665600000
   \<and> location sampleLastMillisecond = ''Kokapet''
   \<and> appointmentTime sampleLastMillisecond = ''10:00''
   \<and> status sampleLastMillisecond = Confirmed
   \<and> map_sum id (\<lambda>a. (availableSlots a, bookedSlots a))
        (dayAvailability 19800000 1793491200000 (Some 1894665600000) ''Kokapet''
           [sampleLastMillisecond])
       = Inr ([''10:00'', ''11:00'', ''12:00'', ''13:00'', ''14:00'',
               ''15:00'', ''16:00'', ''17:00'', ''18:00'', ''19:00''], [])
   \<and> map_sum id (\<lambda>a. (availableSlots a, bookedSlots a))
        (dayAvailability 19800000 1793491200000 (Some 1894665600000) ''Kokapet''
           [sampleLastMillisecond\<lparr>appointmentDate := 1894732199998\<rparr>])
       = Inr ([''11:00'', ''12:00'', ''13:00'', ''14:00'',
               ''15:00'', ''16:00'', ''17:00'', ''18:00'', ''19:00''], [''10:00''])"
proof -
  note f = sampleLastMillisecond_fields
  have day: "localDay 19800000 (appointmentDate sampleLastMillisecond)
               = localDay 19800000 1894665600000"
    by (simp add: f localDay_def msPerDay_def)
  have s: "startOfDay 19800000 1894665600000 = 1894645800000"
    "endOfDay 19800000 1894645800000 = 1894732199999"
    "startOfDay 19800000 1793491200000 = 1793471400000"
    "localDay 19800000 1894732199999 \<noteq> localDay 19800000 1793491200000"
    by (simp_all add: startOfDay_def endOfDay_def localDay_def msPerDay_def)
  have last: "findDayBookings 1894645800000 1894732199999 ''Kokapet'' [sampleLastMillisecond] = []"
    by (simp add: findDayBookings_def f)
  have before: "findDayBookings 1894645800000 1894732199999 ''Kokapet''
                  [sampleLastMillisecond\<lparr>appointmentDate := 1894732199998\<rparr>]
                  = [sampleLastMillisecond\<lparr>appointmentDate := 1894732199998\<rparr>]"
    by (simp add: findDayBookings_def f)
  have a: "map_sum id (\<lambda>a. (availableSlots a, bookedSlots a))
        (dayAvailability 19800000 1793491200000 (Some 1894665600000) ''Kokapet''
           [sampleLastMillisecond])
       = Inr ([''10:00'', ''11:00'', ''12:00'', ''13:00'', ''14:00'',
               ''15:00'', ''16:00'', ''17:00'', ''18:00'', ''19:00''], [])"
    by (simp add: dayAvailability_def Let_def s last timeSlots_eq slotDetail_def)
  have b: "map_sum id (\<lambda>a. (availableSlots a, bookedSlots a))
        (dayAvailability 19800000 1793491200000 (Some 1894665600000) ''Kokapet''
           [sampleLastMillisecond\<lparr>appointmentDate := 1894732199998\<rparr>])
       = Inr ([''11:00'', ''12:00'', ''13:00'', ''14:00'',
               ''15:00'', ''16:00'', ''17:00'', ''18:00'', ''19:00''], [''10:00''])"
    by (simp add: dayAvailability_def Let_def s before timeSlots_eq slotDetail_def f)
  from day a b show ?thesis by (simp add: f)
qed

end
